theory Spec2Isabelle
  imports
    Complex_Main
    "HOL-Library.Sublist"
    "HOL-Library.Char_ord"
    "HOL-Library.List_Lexorder"
    "HOL-Library.Product_Lexorder"
begin

section \<open>Strings\<close>

text \<open>
  A Python \<open>str\<close> is modelled as a \<open>string\<close> whose characters are the code points
  0 to 255 (ASCII and Latin-1). The library functions \<open>str.lower\<close>, \<open>str.strip\<close> and
  the class \<open>\w\<close> of the \<open>re\<close> module are written out for these code points.
  A finite Python \<open>float\<close> is modelled by the rational number it denotes. A float
  addition or division gives the exact result rounded to a float: the rounding \<open>rnd\<close> is
  a parameter of every function that computes with floats, and what is proved holds for
  every rounding. Infinities and NaN are not modelled.
\<close>

definition is_upper :: "char \<Rightarrow> bool" where
  "is_upper c =
     (let n = (of_char c :: nat)
      in (65 \<le> n \<and> n \<le> 90) \<or> (192 \<le> n \<and> n \<le> 222 \<and> n \<noteq> 215))"

definition lower_char :: "char \<Rightarrow> char" where
  "lower_char c = (if is_upper c then char_of ((of_char c :: nat) + 32) else c)"

text \<open>\<open>s.lower()\<close>\<close>

definition lower :: "string \<Rightarrow> string" where
  "lower s = map lower_char s"

text \<open>The class \<open>\w\<close> of a \<open>str\<close> pattern: alphanumeric characters and the underscore.\<close>

definition is_alnum :: "char \<Rightarrow> bool" where
  "is_alnum c =
     (let n = (of_char c :: nat)
      in (48 \<le> n \<and> n \<le> 57) \<or> (65 \<le> n \<and> n \<le> 90) \<or> (97 \<le> n \<and> n \<le> 122)
         \<or> n = 170 \<or> n = 178 \<or> n = 179 \<or> n = 181 \<or> n = 185 \<or> n = 186
         \<or> n = 188 \<or> n = 189 \<or> n = 190
         \<or> (192 \<le> n \<and> n \<noteq> 215 \<and> n \<noteq> 247))"

definition is_word_char :: "char \<Rightarrow> bool" where
  "is_word_char c = (is_alnum c \<or> c = CHR ''_'')"

text \<open>\<open>str.isspace\<close> on one character, as used by \<open>str.strip\<close>.\<close>

definition is_space :: "char \<Rightarrow> bool" where
  "is_space c =
     (let n = (of_char c :: nat)
      in (9 \<le> n \<and> n \<le> 13) \<or> (28 \<le> n \<and> n \<le> 32) \<or> n = 133 \<or> n = 160)"

text \<open>\<open>s.strip()\<close>\<close>

definition strip :: "string \<Rightarrow> string" where
  "strip s = rev (dropWhile is_space (rev (dropWhile is_space s)))"

text \<open>\<open>sep.join(xs)\<close>\<close>

fun join :: "string \<Rightarrow> string list \<Rightarrow> string" where
  "join sep [] = []"
| "join sep [x] = x"
| "join sep (x # y # ys) = x @ sep @ join sep (y # ys)"

section \<open>Whole-word search\<close>

text \<open>
  \<open>re.search(r"\b" + re.escape(alias) + r"\b", text)\<close>: the escaped alias matches
  itself literally, and \<open>\b\<close> holds at a position when exactly one of the characters
  before and after it is a word character (a missing character counts as a non-word one).
\<close>

definition word_at :: "string \<Rightarrow> nat \<Rightarrow> bool" where
  "word_at s i = (i < length s \<and> is_word_char (s ! i))"

definition boundary :: "string \<Rightarrow> nat \<Rightarrow> bool" where
  "boundary s i = (word_at s i \<noteq> (0 < i \<and> word_at s (i - 1)))"

definition match_here :: "string \<Rightarrow> string \<Rightarrow> nat \<Rightarrow> bool" where
  "match_here alias text i =
     (boundary text i \<and> take (length alias) (drop i text) = alias
      \<and> boundary text (i + length alias))"

definition search_word :: "string \<Rightarrow> string \<Rightarrow> bool" where
  "search_word alias text = list_ex (match_here alias text) [0..<Suc (length text)]"

text \<open>
  The reading of "occurs as a whole word": the alias occurs at some position, the
  character before the occurrence (if any) is not a word character and neither is the
  character after it (if any).
\<close>

definition whole_word_occurs :: "string \<Rightarrow> string \<Rightarrow> bool" where
  "whole_word_occurs alias text =
     (\<exists>i \<in> {0..length text}. i + length alias \<le> length text
        \<and> take (length alias) (drop i text) = alias
        \<and> (i = 0 \<or> \<not> is_word_char (text ! (i - 1)))
        \<and> (i + length alias = length text \<or> \<not> is_word_char (text ! (i + length alias))))"

section \<open>The skill dictionary\<close>

record skill_def =
  sd_name :: string
  sd_category :: string
  sd_aliases :: "string list"

definition mk_def :: "string \<Rightarrow> string \<Rightarrow> string list \<Rightarrow> skill_def" where
  "mk_def n c as = \<lparr>sd_name = n, sd_category = c, sd_aliases = as\<rparr>"

definition SKILL_CONFIG :: "skill_def list" where
  "SKILL_CONFIG =
    [ mk_def ''Python'' ''Programming Language'' [''python'', ''py'', ''python3''],
      mk_def ''Java'' ''Programming Language'' [''java''],
      mk_def ''JavaScript'' ''Programming Language'' [''javascript'', ''js''],
      mk_def ''TypeScript'' ''Programming Language'' [''typescript'', ''ts''],
      mk_def ''SQL'' ''Database / Query'' [''sql'', ''t-sql'', ''pl/sql''],
      mk_def ''React'' ''Frontend Framework'' [''react'', ''reactjs''],
      mk_def ''Node.js'' ''Backend Runtime'' [''node'', ''node.js'', ''nodejs''],
      mk_def ''Express'' ''Backend Framework'' [''express'', ''expressjs''],
      mk_def ''FastAPI'' ''Backend Framework'' [''fastapi''],
      mk_def ''Django'' ''Backend Framework'' [''django''],
      mk_def ''MongoDB'' ''Database'' [''mongodb'', ''mongo''],
      mk_def ''PostgreSQL'' ''Database'' [''postgres'', ''postgresql''],
      mk_def ''MySQL'' ''Database'' [''mysql''],
      mk_def ''AWS'' ''Cloud'' [''aws'', ''amazon web services''],
      mk_def ''Azure'' ''Cloud'' [''azure''],
      mk_def ''GCP'' ''Cloud'' [''gcp'', ''google cloud''],
      mk_def ''Docker'' ''DevOps / Containerization'' [''docker''],
      mk_def ''Kubernetes'' ''DevOps / Orchestration'' [''kubernetes'', ''k8s''],
      mk_def ''CI/CD'' ''DevOps''
        [''ci/cd'', ''cicd'', ''continuous integration'', ''continuous delivery''],
      mk_def ''GitHub Actions'' ''DevOps'' [''github actions''],
      mk_def ''Jenkins'' ''DevOps'' [''jenkins''],
      mk_def ''Machine Learning'' ''ML / AI'' [''machine learning'', ''ml'', ''ml/ai''],
      mk_def ''Data Science'' ''Data / Analytics'' [''data science'', ''data scientist''],
      mk_def ''Pandas'' ''Data / Analytics'' [''pandas''],
      mk_def ''NumPy'' ''Data / Analytics'' [''numpy'', ''np''],
      mk_def ''LangChain'' ''LLM / RAG'' [''langchain''],
      mk_def ''ChromaDB'' ''Vector Database'' [''chroma'', ''chromadb''] ]"

section \<open>Skill records\<close>

text \<open>
  A skill is a dictionary with the keys \<open>name\<close>, \<open>category\<close>, \<open>confidence\<close> and
  \<open>evidence\<close>, read with \<open>s.get(key, default)\<close> by most callers. A key may be absent
  (\<open>None\<close>); a key that is present holds a value of the type the code expects.
\<close>

record skill_dict =
  d_name :: "string option"
  d_category :: "string option"
  d_confidence :: "rat option"
  d_evidence :: "string option"

text \<open>\<open>s.get(key, default)\<close>\<close>

definition get_or :: "'a option \<Rightarrow> 'a \<Rightarrow> 'a" where
  "get_or v dflt = (case v of None \<Rightarrow> dflt | Some x \<Rightarrow> x)"

section \<open>The skill extractor\<close>

text \<open>
  The dictionary \<open>found\<close> keeps its keys in insertion order, so it is an association
  list that only grows at its end.
\<close>

type_synonym found_dict = "(string \<times> skill_dict) list"

fun scan_aliases :: "string \<Rightarrow> string \<Rightarrow> string list \<Rightarrow> string \<Rightarrow> found_dict \<Rightarrow> found_dict" where
  "scan_aliases name category [] text found = found"
| "scan_aliases name category (alias # rest) text found =
     (let alias' = lower alias
      in if search_word alias' text
         then (if name \<notin> set (map fst found)
               then found @ [(name, \<lparr>d_name = Some name, d_category = Some category,
                                     d_confidence = Some (7 / 10), d_evidence = Some alias'\<rparr>)]
               else found)
         else scan_aliases name category rest text found)"

fun scan_skills :: "skill_def list \<Rightarrow> string \<Rightarrow> found_dict \<Rightarrow> found_dict" where
  "scan_skills [] text found = found"
| "scan_skills (skill # rest) text found =
     scan_skills rest text
       (scan_aliases (sd_name skill) (sd_category skill) (sd_aliases skill) text found)"

definition fallback_extract_skills :: "string \<Rightarrow> skill_dict list" where
  "fallback_extract_skills message =
     (let text = lower message in map snd (scan_skills SKILL_CONFIG text []))"

text \<open>
  The extractor as the specification words it: one entry for each definition of the
  dictionary, in declaration order, that has an alias occurring as a whole word in the
  lower-cased text, with the first such alias as evidence.
\<close>

definition extracted_entry :: "string \<Rightarrow> skill_def \<Rightarrow> skill_dict list" where
  "extracted_entry text d =
     (case find (\<lambda>a. whole_word_occurs a text) (sd_aliases d) of
        None \<Rightarrow> []
      | Some a \<Rightarrow> [\<lparr>d_name = Some (sd_name d), d_category = Some (sd_category d),
                    d_confidence = Some (7 / 10), d_evidence = Some a\<rparr>])"

definition extract_spec :: "string \<Rightarrow> skill_dict list" where
  "extract_spec message = concat (map (extracted_entry (lower message)) SKILL_CONFIG)"

section \<open>Roles suggested by the response composer\<close>

text \<open>
  The loop that removes repeated roles, the same in \<open>fallback_response\<close> and in
  \<open>infer_roles_from_skill_names\<close>: \<open>seen\<close> is a set, \<open>unique_roles\<close> a list.
\<close>

fun unique_roles_loop :: "string list \<Rightarrow> string set \<Rightarrow> string list \<Rightarrow> string list" where
  "unique_roles_loop [] seen unique_roles = unique_roles"
| "unique_roles_loop (r # rs) seen unique_roles =
     (if r \<notin> seen then unique_roles_loop rs (insert r seen) (unique_roles @ [r])
      else unique_roles_loop rs seen unique_roles)"

text \<open>\<open>any(s in names for s in xs)\<close>\<close>

definition any_in :: "string set \<Rightarrow> string list \<Rightarrow> bool" where
  "any_in names xs = list_ex (\<lambda>s. s \<in> names) xs"

text \<open>The role rules inside \<open>fallback_response\<close> (the chat-composer variant).\<close>

definition composer_roles :: "string list \<Rightarrow> string list" where
  "composer_roles skill_names =
     (let names = set skill_names;
          r1 = (if ''React'' \<in> names
                   \<and> (''FastAPI'' \<in> names \<or> ''Node.js'' \<in> names \<or> ''Express'' \<in> names)
                then [''Full-Stack Developer''] else []);
          r2 = (if any_in names [''FastAPI'', ''Django'', ''Node.js'', ''Express'', ''SQL'', ''REST API'']
                then [''Backend Engineer''] else []);
          r3 = (if any_in names [''AWS'', ''Azure'', ''GCP'', ''Docker'', ''Kubernetes'', ''CI/CD'',
                                 ''GitHub Actions'']
                then [''DevOps / Cloud Engineer''] else []);
          r4 = (if any_in names [''Pandas'', ''NumPy'', ''SQL'', ''PostgreSQL'', ''MongoDB'',
                                 ''Data Science'']
                then [''Data Engineer / Data Analyst''] else []);
          r5 = (if any_in names [''LangChain'', ''ChromaDB'', ''Machine Learning'']
                then [''LLM / RAG Engineer''] else []);
          suggested_roles = r1 @ r2 @ r3 @ r4 @ r5
      in unique_roles_loop suggested_roles {} [])"

text \<open>The five role labels in the order in which the rules are evaluated.\<close>

definition ROLE_ORDER :: "string list" where
  "ROLE_ORDER = [''Full-Stack Developer'', ''Backend Engineer'', ''DevOps / Cloud Engineer'',
                 ''Data Engineer / Data Analyst'', ''LLM / RAG Engineer'']"

section \<open>The response composer\<close>

datatype error = KeyError | ValidationError | NotFound | BadRequest | UpstreamError

definition greetings :: "string set" where
  "greetings = {''hi'', ''hello'', ''hey'', ''hii'', ''hey there'', ''hola''}"

text \<open>
  A reply is a list of code points: the greeting holds characters beyond Latin-1.
\<close>

type_synonym ustring = "nat list"

definition code_points :: "string \<Rightarrow> ustring" where
  "code_points s = map of_char s"

text \<open>
  The fixed texts. A line feed is \<open>CHR 0x0A\<close> and an apostrophe \<open>CHR 0x27\<close>; the four
  characters after "Hey! " are the code points U+00F0, U+0178, U+2018 and U+2039.
\<close>

definition greeting_reply :: ustring where
  "greeting_reply =
     code_points ''Hey! '' @ [0xF0, 0x178, 0x2018, 0x2039]
     @ code_points
        ('' I''
         @ [CHR 0x27]
         @ ''m your skill assistant.''
         @ [CHR 0x0A, CHR 0x0A]
         @ ''Tell me about your experience or paste a resume bullet, and I''
         @ [CHR 0x27]
         @ ''ll identify your key skills and suggest matching roles.'')"

definition no_skills_reply :: ustring where
  "no_skills_reply =
     code_points
       (''Thanks for sharing! I didn''
        @ [CHR 0x27]
        @ ''t catch specific technologies from that message.''
        @ [CHR 0x0A, CHR 0x0A]
        @ ''Try mentioning some languages (Python, JavaScript), frameworks ''
        @ ''(React, FastAPI, Django), databases (MongoDB, PostgreSQL), or cloud ''
        @ ''tools (AWS, Docker), and I''
        @ [CHR 0x27]
        @ ''ll extract skills and build your profile.'')"

definition reply_head :: string where
  "reply_head =
     ''Nice, thanks for the context!'' @ [CHR 0x0A, CHR 0x0A]
     @ ''I can clearly see these skills in your message: ''"

definition reply_question :: string where
  "reply_question =
     ''What kind of roles are you aiming for (backend, full-stack, data, DevOps, AI/RAG)? ''
     @ ''I can help you map your skills to those roles and suggest what to learn next.''"

definition roles_sentence :: "string list \<Rightarrow> string" where
  "roles_sentence unique_roles =
     (if unique_roles \<noteq> []
      then ''From this stack, some good role targets could be: '' @ join '', '' unique_roles @ ''.''
      else ''This combination of skills can map to multiple roles depending on your interests and experience.'')"

text \<open>\<open>[s["name"] for s in skills]\<close>: a missing key raises \<open>KeyError\<close>.\<close>

fun names_of :: "skill_dict list \<Rightarrow> error + string list" where
  "names_of [] = Inr []"
| "names_of (s # ss) =
     (case d_name s of
        None \<Rightarrow> Inl KeyError
      | Some n \<Rightarrow> (case names_of ss of Inl e \<Rightarrow> Inl e | Inr ns \<Rightarrow> Inr (n # ns)))"

definition fallback_response :: "string \<Rightarrow> skill_dict list \<Rightarrow> error + ustring" where
  "fallback_response message skills =
     (let text = lower (strip message)
      in if skills = [] \<and> text \<in> greetings then Inr greeting_reply
         else if skills = [] then Inr no_skills_reply
         else (case names_of skills of
                 Inl e \<Rightarrow> Inl e
               | Inr skill_names \<Rightarrow>
                   (let skill_list_str = join '', '' skill_names;
                        unique_roles = composer_roles skill_names;
                        roles_part = roles_sentence unique_roles
                    in Inr (code_points
                              (reply_head @ skill_list_str @ ''.'' @ [CHR 0x0A]
                               @ roles_part @ [CHR 0x0A, CHR 0x0A] @ reply_question)))))"

section \<open>The conversation analyzer\<close>

text \<open>
  \<open>analyze_message\<close> reads the environment variable \<open>OPENAI_API_KEY\<close> and may call
  \<open>llm_analyze_with_rag\<close>; both are parameters here. Every exception of the call is
  caught, and the local engine runs instead.
\<close>

type_synonym analysis = "ustring \<times> skill_dict list"

definition analyze_message ::
  "string \<Rightarrow> bool \<Rightarrow> string option \<Rightarrow> (string \<Rightarrow> error + analysis) \<Rightarrow> error + analysis" where
  "analyze_message message use_llm api_key llm_analyze_with_rag =
     (case (if use_llm \<and> api_key \<noteq> None \<and> api_key \<noteq> Some []
            then (case llm_analyze_with_rag message of Inr r \<Rightarrow> Some r | Inl e \<Rightarrow> None)
            else None) of
        Some r \<Rightarrow> Inr r
      | None \<Rightarrow>
          (let skills = fallback_extract_skills message
           in case fallback_response message skills of
                Inl e \<Rightarrow> Inl e
              | Inr reply \<Rightarrow> Inr (reply, skills)))"

section \<open>Role inference of the profile endpoint\<close>

definition infer_roles_from_skill_names :: "string list \<Rightarrow> string list" where
  "infer_roles_from_skill_names skill_names =
     (let names = set skill_names;
          r1 = (if ''React'' \<in> names
                   \<and> (''FastAPI'' \<in> names \<or> ''Node.js'' \<in> names \<or> ''Express'' \<in> names)
                then [''Full-Stack Developer''] else []);
          r2 = (if any_in names [''FastAPI'', ''Django'', ''Node.js'', ''Express'', ''REST API'']
                then [''Backend Engineer''] else []);
          r3 = (if any_in names [''AWS'', ''Azure'', ''GCP'', ''Docker'', ''Kubernetes'', ''CI/CD'',
                                 ''GitHub Actions'']
                then [''DevOps / Cloud Engineer''] else []);
          r4 = (if any_in names [''Pandas'', ''NumPy'', ''SQL'', ''PostgreSQL'', ''MongoDB'']
                then [''Data Engineer / Data Analyst''] else []);
          r5 = (if any_in names [''LangChain'', ''ChromaDB'']
                then [''LLM / RAG Engineer''] else []);
          roles = r1 @ r2 @ r3 @ r4 @ r5
      in unique_roles_loop roles {} [])"

section \<open>Stored turns and the typed skill model\<close>

text \<open>The pydantic model \<open>Skill\<close>; only \<open>name\<close> has no default.\<close>

record Skill =
  s_name :: string
  s_category :: string
  s_confidence :: rat
  s_evidence :: string

text \<open>\<open>Skill(**s)\<close>: validation fails when the required field is missing.\<close>

definition parse_skill :: "skill_dict \<Rightarrow> error + Skill" where
  "parse_skill s =
     (case d_name s of
        None \<Rightarrow> Inl ValidationError
      | Some n \<Rightarrow> Inr \<lparr>s_name = n, s_category = get_or (d_category s) [],
                       s_confidence = get_or (d_confidence s) 0,
                       s_evidence = get_or (d_evidence s) []\<rparr>)"

text \<open>\<open>[Skill(**s) for s in skills_data]\<close>: the first failure ends the comprehension.\<close>

fun parse_skills :: "skill_dict list \<Rightarrow> error + Skill list" where
  "parse_skills [] = Inr []"
| "parse_skills (s # ss) =
     (case parse_skill s of
        Inl e \<Rightarrow> Inl e
      | Inr k \<Rightarrow> (case parse_skills ss of Inl e \<Rightarrow> Inl e | Inr ks \<Rightarrow> Inr (k # ks)))"

text \<open>
  A row of the table \<open>conversation_turns\<close>. \<open>skills_json\<close> is \<open>None\<close> for a null
  column; the code reads it as \<open>t.skills_json or []\<close>.
\<close>

record ConversationTurn =
  session_id :: string
  user_message :: string
  bot_response :: string
  skills_json :: "skill_dict list option"
  created_at :: nat

definition skills_or_empty :: "ConversationTurn \<Rightarrow> skill_dict list" where
  "skills_or_empty t = (case skills_json t of None \<Rightarrow> [] | Some l \<Rightarrow> l)"

record TurnOut =
  o_user_message :: string
  o_bot_response :: string
  o_skills :: "Skill list"
  o_created_at :: nat

section \<open>Conversation history\<close>

fun turns_out :: "ConversationTurn list \<Rightarrow> error + TurnOut list" where
  "turns_out [] = Inr []"
| "turns_out (t # ts) =
     (let skills_data = skills_or_empty t
      in case parse_skills skills_data of
           Inl e \<Rightarrow> Inl e
         | Inr skills_objs \<Rightarrow>
             (case turns_out ts of
                Inl e \<Rightarrow> Inl e
              | Inr res \<Rightarrow> Inr (\<lparr>o_user_message = user_message t,
                                   o_bot_response = bot_response t,
                                   o_skills = skills_objs,
                                   o_created_at = created_at t\<rparr> # res)))"

definition get_conversation :: "string \<Rightarrow> ConversationTurn list \<Rightarrow> error + TurnOut list" where
  "get_conversation sid db =
     (let turns = sort_key created_at (filter (\<lambda>t. session_id t = sid) db)
      in turns_out turns)"

section \<open>Float arithmetic\<close>

definition float_add :: "(rat \<Rightarrow> rat) \<Rightarrow> rat \<Rightarrow> rat \<Rightarrow> rat" where
  "float_add rnd x y = rnd (x + y)"

definition float_div :: "(rat \<Rightarrow> rat) \<Rightarrow> rat \<Rightarrow> rat \<Rightarrow> rat" where
  "float_div rnd x y = rnd (x / y)"

text \<open>The sum of a list of floats as a loop accumulates it from \<open>0.0\<close>, left to right.\<close>

definition float_sum :: "(rat \<Rightarrow> rat) \<Rightarrow> rat list \<Rightarrow> rat" where
  "float_sum rnd cs = foldl (float_add rnd) 0 cs"

section \<open>The session profile\<close>

text \<open>The entries of \<open>skill_stats\<close>, a dictionary keyed by name in insertion order.\<close>

record stat_info =
  i_name :: string
  i_category :: string
  i_count :: int
  i_sum_conf :: rat

type_synonym stats_dict = "(string \<times> stat_info) list"

record SkillCount =
  c_name :: string
  c_category :: string
  c_count :: int
  c_avg_confidence :: rat

record ProfileResponse =
  p_session_id :: string
  total_turns :: int
  total_skills :: int
  p_skills :: "SkillCount list"
  suggested_roles :: "string list"

text \<open>\<open>d[key] = f(d[key])\<close> for a key of the dictionary.\<close>

definition update_entry :: "string \<Rightarrow> (stat_info \<Rightarrow> stat_info) \<Rightarrow> stats_dict \<Rightarrow> stats_dict" where
  "update_entry k f d = map (\<lambda>(k', v). if k' = k then (k', f v) else (k', v)) d"

text \<open>What the loop reads from one stored record.\<close>

definition key_of :: "skill_dict \<Rightarrow> string" where
  "key_of s = strip (get_or (d_name s) [])"

definition category_of :: "skill_dict \<Rightarrow> string" where
  "category_of s = (let c = strip (get_or (d_category s) []) in if c \<noteq> [] then c else ''Skill'')"

definition conf_of :: "skill_dict \<Rightarrow> rat" where
  "conf_of s = get_or (d_confidence s) 0"

text \<open>The body of the inner loop of \<open>get_profile\<close>.\<close>

definition count_skill :: "(rat \<Rightarrow> rat) \<Rightarrow> stats_dict \<Rightarrow> skill_dict \<Rightarrow> stats_dict" where
  "count_skill rnd skill_stats s =
     (let name = key_of s
      in if name = [] then skill_stats
         else (let category = category_of s;
                   conf = conf_of s;
                   stats1 = (if name \<notin> set (map fst skill_stats)
                             then skill_stats @ [(name, \<lparr>i_name = name, i_category = category,
                                                          i_count = 0, i_sum_conf = 0\<rparr>)]
                             else skill_stats);
                   stats2 = update_entry name (\<lambda>i. i\<lparr>i_count := i_count i + 1\<rparr>) stats1
               in update_entry name
                    (\<lambda>i. i\<lparr>i_sum_conf := float_add rnd (i_sum_conf i) conf\<rparr>) stats2))"

definition count_turn ::
  "(rat \<Rightarrow> rat) \<Rightarrow> stats_dict \<Rightarrow> ConversationTurn \<Rightarrow> stats_dict" where
  "count_turn rnd skill_stats t = foldl (count_skill rnd) skill_stats (skills_or_empty t)"

definition skill_count_of :: "(rat \<Rightarrow> rat) \<Rightarrow> stat_info \<Rightarrow> SkillCount" where
  "skill_count_of rnd info =
     \<lparr>c_name = i_name info, c_category = i_category info, c_count = i_count info,
      c_avg_confidence = float_div rnd (i_sum_conf info) (of_int (max (i_count info) 1))\<rparr>"

text \<open>
  \<open>xs.sort(key=f, reverse=True)\<close>: a stable sort of the reversed list, reversed again.
  The key is the pair of count and average, compared lexicographically.
\<close>

definition sort_reverse :: "SkillCount list \<Rightarrow> SkillCount list" where
  "sort_reverse xs = rev (sort_key (\<lambda>s. (c_count s, c_avg_confidence s)) (rev xs))"

definition get_profile ::
  "(rat \<Rightarrow> rat) \<Rightarrow> string \<Rightarrow> ConversationTurn list \<Rightarrow> error + ProfileResponse" where
  "get_profile rnd sid db =
     (let turns = filter (\<lambda>t. session_id t = sid) db
      in if turns = [] then Inl NotFound
         else (let skill_stats = foldl (count_turn rnd) [] turns;
                   skill_counts = sort_reverse (map (skill_count_of rnd \<circ> snd) skill_stats);
                   roles = infer_roles_from_skill_names (map c_name skill_counts)
               in Inr \<lparr>p_session_id = sid, total_turns = int (length turns),
                       total_skills = int (length skill_counts), p_skills = skill_counts,
                       suggested_roles = roles\<rparr>))"

text \<open>
  The words of the specification: all stored records of the turns in order, and the
  records that count for a name.
\<close>

definition entries_of :: "ConversationTurn list \<Rightarrow> skill_dict list" where
  "entries_of turns = concat (map skills_or_empty turns)"

definition occurrences :: "string \<Rightarrow> skill_dict list \<Rightarrow> skill_dict list" where
  "occurrences n es = filter (\<lambda>s. key_of s = n) es"

definition by_count_then_avg :: "SkillCount \<Rightarrow> SkillCount \<Rightarrow> bool" where
  "by_count_then_avg a b =
     (c_count b < c_count a
      \<or> (c_count a = c_count b \<and> c_avg_confidence b \<le> c_avg_confidence a))"

section \<open>The matcher\<close>

record MatchResult =
  match_score :: rat
  candidate_skills :: "Skill list"
  jd_skills :: "Skill list"
  matched_skills :: "string list"
  missing_skills :: "string list"
  extra_skills :: "string list"

text \<open>\<open>if s.get("name")\<close>: the name is present and not empty.\<close>

definition has_name :: "skill_dict \<Rightarrow> bool" where
  "has_name s = (case d_name s of None \<Rightarrow> False | Some n \<Rightarrow> n \<noteq> [])"

definition to_skill :: "skill_dict \<Rightarrow> Skill" where
  "to_skill s =
     \<lparr>s_name = strip (get_or (d_name s) []), s_category = strip (get_or (d_category s) []),
      s_confidence = get_or (d_confidence s) 0, s_evidence = strip (get_or (d_evidence s) [])\<rparr>"

definition name_set :: "Skill list \<Rightarrow> string set" where
  "name_set ks = (\<lambda>s. lower (s_name s)) ` set ks"

definition match_skills ::
  "(rat \<Rightarrow> rat) \<Rightarrow> string \<Rightarrow> string \<Rightarrow> string option \<Rightarrow> (string \<Rightarrow> error + analysis) \<Rightarrow> error + MatchResult" where
  "match_skills rnd candidate_text job_description api_key llm =
     (if strip candidate_text = [] \<or> strip job_description = [] then Inl BadRequest
      else (case analyze_message candidate_text False api_key llm of
              Inl e \<Rightarrow> Inl e
            | Inr (cand_reply, cand_skills_raw) \<Rightarrow>
                (case analyze_message job_description False api_key llm of
                   Inl e \<Rightarrow> Inl e
                 | Inr (jd_reply, jd_skills_raw) \<Rightarrow>
                     (let cand_skills = map to_skill (filter has_name cand_skills_raw);
                          jd_skills' = map to_skill (filter has_name jd_skills_raw);
                          cand_set = name_set cand_skills;
                          jd_set = name_set jd_skills';
                          matched = sorted_list_of_set (cand_set \<inter> jd_set);
                          missing = sorted_list_of_set (jd_set - cand_set);
                          extra = sorted_list_of_set (cand_set - jd_set);
                          score = (if jd_set \<noteq> {}
                                   then float_div rnd (of_nat (length matched))
                                          (of_nat (card jd_set))
                                   else 0)
                      in Inr \<lparr>match_score = score, candidate_skills = cand_skills,
                              jd_skills = jd_skills', matched_skills = matched,
                              missing_skills = missing, extra_skills = extra\<rparr>))))"

text \<open>The canonical names, lower-cased, of the definitions that match a text.\<close>

definition matched_names :: "string \<Rightarrow> string set" where
  "matched_names text =
     set (map (\<lambda>d. lower (sd_name d))
            (filter (\<lambda>d. \<exists>a \<in> set (sd_aliases d). whole_word_occurs a (lower text))
               SKILL_CONFIG))"

section \<open>Auxiliary notions of the proofs\<close>

definition alias_ok :: "string \<Rightarrow> bool" where
  "alias_ok a = (a \<noteq> [] \<and> is_word_char (hd a) \<and> is_word_char (last a) \<and> lower a = a)"

definition keyed_entry :: "string \<Rightarrow> skill_def \<Rightarrow> (string \<times> skill_dict) list" where
  "keyed_entry text d = map (\<lambda>e. (sd_name d, e)) (extracted_entry text d)"

text \<open>A scan of the text that decides \<open>whole_word_occurs\<close> by recursion on the text.\<close>

fun here :: "string \<Rightarrow> string \<Rightarrow> bool" where
  "here [] [] = True"
| "here [] (c # r) = (\<not> is_word_char c)"
| "here (x # xs) [] = False"
| "here (x # xs) (c # r) = (x = c \<and> here xs r)"

fun occ :: "bool \<Rightarrow> string \<Rightarrow> string \<Rightarrow> bool" where
  "occ pw a [] = (\<not> pw \<and> here a [])"
| "occ pw a (c # r) = ((\<not> pw \<and> here a (c # r)) \<or> occ (is_word_char c) a r)"

definition occ_at :: "bool \<Rightarrow> string \<Rightarrow> string \<Rightarrow> nat \<Rightarrow> bool" where
  "occ_at pw a t i =
     (i + length a \<le> length t \<and> take (length a) (drop i t) = a
      \<and> (if i = 0 then \<not> pw else \<not> is_word_char (t ! (i - 1)))
      \<and> (i + length a = length t \<or> \<not> is_word_char (t ! (i + length a))))"

text \<open>
  The role rules as the specification lists them, for the profile endpoint and for the
  chat composer, and the roles of the rules that fire, in the order of the rules.
\<close>

definition profile_rules :: "string set \<Rightarrow> bool list" where
  "profile_rules names =
     [''React'' \<in> names \<and> (''FastAPI'' \<in> names \<or> ''Node.js'' \<in> names \<or> ''Express'' \<in> names),
      names \<inter> {''FastAPI'', ''Django'', ''Node.js'', ''Express'', ''REST API''} \<noteq> {},
      names \<inter> {''AWS'', ''Azure'', ''GCP'', ''Docker'', ''Kubernetes'', ''CI/CD'', ''GitHub Actions''} \<noteq> {},
      names \<inter> {''Pandas'', ''NumPy'', ''SQL'', ''PostgreSQL'', ''MongoDB''} \<noteq> {},
      names \<inter> {''LangChain'', ''ChromaDB''} \<noteq> {}]"

definition composer_rules :: "string set \<Rightarrow> bool list" where
  "composer_rules names =
     [''React'' \<in> names \<and> (''FastAPI'' \<in> names \<or> ''Node.js'' \<in> names \<or> ''Express'' \<in> names),
      names \<inter> {''FastAPI'', ''Django'', ''Node.js'', ''Express'', ''SQL'', ''REST API''} \<noteq> {},
      names \<inter> {''AWS'', ''Azure'', ''GCP'', ''Docker'', ''Kubernetes'', ''CI/CD'', ''GitHub Actions''} \<noteq> {},
      names \<inter> {''Pandas'', ''NumPy'', ''SQL'', ''PostgreSQL'', ''MongoDB'', ''Data Science''} \<noteq> {},
      names \<inter> {''LangChain'', ''ChromaDB'', ''Machine Learning''} \<noteq> {}]"

definition fired_roles :: "bool list \<Rightarrow> string list" where
  "fired_roles bs = map snd (filter fst (zip bs ROLE_ORDER))"


text \<open>What holds of \<open>skill_stats\<close> after the records \<open>es\<close> have been counted.\<close>

definition stat_ok ::
  "(rat \<Rightarrow> rat) \<Rightarrow> skill_dict list \<Rightarrow> string \<times> stat_info \<Rightarrow> bool" where
  "stat_ok rnd es p =
     (case p of (n, i) \<Rightarrow>
        i_name i = n \<and> n \<noteq> [] \<and> occurrences n es \<noteq> []
        \<and> i_category i = category_of (hd (occurrences n es))
        \<and> i_count i = int (length (occurrences n es))
        \<and> i_sum_conf i = float_sum rnd (map conf_of (occurrences n es)))"

definition counted_keys :: "skill_dict list \<Rightarrow> string set" where
  "counted_keys es = set (filter (\<lambda>k. k \<noteq> []) (map key_of es))"

definition agg_inv :: "(rat \<Rightarrow> rat) \<Rightarrow> skill_dict list \<Rightarrow> stats_dict \<Rightarrow> bool" where
  "agg_inv rnd es stats =
     (distinct (map fst stats) \<and> set (map fst stats) = counted_keys es
      \<and> (\<forall>p \<in> set stats. stat_ok rnd es p))"

section \<open>Whole-word search: properties\<close>


lemma boundary_start:
  assumes "i < length t" "is_word_char (t ! i)"
  shows "boundary t i = (i = 0 \<or> \<not> is_word_char (t ! (i - 1)))"
  using assms by (auto simp: boundary_def word_at_def)

lemma boundary_end:
  assumes "0 < j" "j \<le> length t" "is_word_char (t ! (j - 1))"
  shows "boundary t j = (j = length t \<or> \<not> is_word_char (t ! j))"
  using assms by (auto simp: boundary_def word_at_def)

lemma occurrence_chars:
  assumes "take (length a) (drop i t) = a" "a \<noteq> []"
  shows "i + length a \<le> length t" "t ! i = hd a" "t ! (i + length a - 1) = last a"
proof -
  have len: "length (take (length a) (drop i t)) = length a" using assms by simp
  have pos: "0 < length a" using assms by simp
  have "length a \<le> length t - i" using len by (simp add: min_def split: if_splits)
  with pos show le: "i + length a \<le> length t" by linarith
  have "hd a = (take (length a) (drop i t)) ! 0" using assms by (simp add: hd_conv_nth)
  also have "\<dots> = t ! i" using le pos by simp
  finally show "t ! i = hd a" by simp
  have "last a = (take (length a) (drop i t)) ! (length a - 1)"
    using assms by (simp add: last_conv_nth)
  also have "\<dots> = t ! (i + (length a - 1))" using le pos by simp
  finally show "t ! (i + length a - 1) = last a" using pos by simp
qed

lemma match_here_iff:
  assumes "a \<noteq> []" "is_word_char (hd a)" "is_word_char (last a)"
  shows "match_here a t i =
     (i + length a \<le> length t \<and> take (length a) (drop i t) = a
      \<and> (i = 0 \<or> \<not> is_word_char (t ! (i - 1)))
      \<and> (i + length a = length t \<or> \<not> is_word_char (t ! (i + length a))))"
proof (cases "take (length a) (drop i t) = a")
  case False
  then show ?thesis by (simp add: match_here_def)
next
  case True
  note oc = occurrence_chars[OF True assms(1)]
  have pos: "0 < length a" using assms by simp
  have b1: "boundary t i = (i = 0 \<or> \<not> is_word_char (t ! (i - 1)))"
  proof (rule boundary_start)
    show "i < length t" using oc(1) pos by linarith
    show "is_word_char (t ! i)" using oc(2) assms(2) by simp
  qed
  have b2: "boundary t (i + length a) = (i + length a = length t \<or> \<not> is_word_char (t ! (i + length a)))"
  proof (rule boundary_end)
    show "0 < i + length a" using pos by simp
    show "i + length a \<le> length t" using oc(1) .
    show "is_word_char (t ! (i + length a - 1))" using oc(3) assms(3) by simp
  qed
  show ?thesis using True oc(1) b1 b2 by (simp add: match_here_def)
qed

lemma search_word_iff:
  assumes "a \<noteq> []" "is_word_char (hd a)" "is_word_char (last a)"
  shows "search_word a t = whole_word_occurs a t"
  unfolding search_word_def whole_word_occurs_def list_ex_iff
  by (simp add: match_here_iff[OF assms] less_Suc_eq_le Bex_def conj_ac) (metis le_eq_less_or_eq)


text \<open>The recursive scan decides the same occurrences.\<close>


lemma here_iff:
  "here a t = (length a \<le> length t \<and> take (length a) t = a
               \<and> (length a = length t \<or> \<not> is_word_char (t ! length a)))"
  by (induction a t rule: here.induct) auto

lemma occ_at_0: "occ_at pw a t 0 = (\<not> pw \<and> here a t)"
  by (auto simp: occ_at_def here_iff)

lemma occ_at_Suc: "occ_at pw a (c # r) (Suc j) = occ_at (is_word_char c) a r j"
  by (cases j) (simp_all add: occ_at_def)

lemma occ_at_Nil: "occ_at pw a [] (Suc j) = False"
  by (simp add: occ_at_def)

lemma ex_nat_split: "(\<exists>i. P i) = (P 0 \<or> (\<exists>j. P (Suc j)))"
  by (metis not0_implies_Suc)

lemma occ_iff: "occ pw a t = (\<exists>i. occ_at pw a t i)"
proof (induction t arbitrary: pw)
  case Nil
  show ?case by (subst ex_nat_split) (simp add: occ_at_0 occ_at_Nil)
next
  case (Cons c r)
  show ?case by (subst ex_nat_split) (simp add: occ_at_0 occ_at_Suc Cons)
qed

lemma whole_word_occurs_occ: "whole_word_occurs a t = occ False a t"
proof -
  have eq: "occ_at False a t i =
       (i + length a \<le> length t \<and> take (length a) (drop i t) = a
        \<and> (i = 0 \<or> \<not> is_word_char (t ! (i - 1)))
        \<and> (i + length a = length t \<or> \<not> is_word_char (t ! (i + length a))))" for i
    by (simp add: occ_at_def)
  have bound: "occ_at False a t i \<Longrightarrow> i \<in> {0..length t}" for i
    by (simp add: occ_at_def)
  have "whole_word_occurs a t = (\<exists>i \<in> {0..length t}. occ_at False a t i)"
    by (simp only: whole_word_occurs_def eq)
  also have "\<dots> = (\<exists>i. occ_at False a t i)"
    using bound by blast
  finally show ?thesis by (simp only: occ_iff)
qed


section \<open>The skill extractor: properties\<close>


lemma config_aliases_ok:
  "\<forall>d \<in> set SKILL_CONFIG. \<forall>a \<in> set (sd_aliases d). alias_ok a"
  by (simp add: SKILL_CONFIG_def mk_def_def alias_ok_def is_word_char_def is_alnum_def
      lower_def lower_char_def is_upper_def)

lemma config_names_distinct: "distinct (map sd_name SKILL_CONFIG)"
  by (simp add: SKILL_CONFIG_def mk_def_def)

lemma scan_aliases_find:
  "scan_aliases n c as t found =
     (case find (\<lambda>a. search_word (lower a) t) as of
        None \<Rightarrow> found
      | Some a \<Rightarrow>
          if n \<notin> set (map fst found)
          then found @ [(n, \<lparr>d_name = Some n, d_category = Some c,
                              d_confidence = Some (7 / 10), d_evidence = Some (lower a)\<rparr>)]
          else found)"
  by (induction as) (simp_all add: Let_def)

lemma find_aliases_ok:
  assumes "\<forall>a \<in> set as. alias_ok a"
  shows "find (\<lambda>a. search_word (lower a) t) as = find (\<lambda>a. whole_word_occurs a t) as"
  using assms
  by (induction as) (simp_all add: alias_ok_def search_word_iff)

lemma scan_aliases_entry:
  assumes "\<forall>a \<in> set (sd_aliases d). alias_ok a" "sd_name d \<notin> set (map fst found)"
  shows "scan_aliases (sd_name d) (sd_category d) (sd_aliases d) t found
         = found @ keyed_entry t d"
proof (cases "find (\<lambda>a. whole_word_occurs a t) (sd_aliases d)")
  case None
  then show ?thesis
    using assms by (simp add: scan_aliases_find find_aliases_ok keyed_entry_def extracted_entry_def)
next
  case (Some a)
  then have "a \<in> set (sd_aliases d)" by (auto simp: find_Some_iff)
  then have "lower a = a" using assms(1) by (simp add: alias_ok_def)
  then show ?thesis
    using assms Some
    by (simp add: scan_aliases_find find_aliases_ok keyed_entry_def extracted_entry_def)
qed

lemma keyed_entry_keys: "(k, e) \<in> set (keyed_entry t d) \<Longrightarrow> k = sd_name d"
  by (auto simp: keyed_entry_def)

lemma scan_skills_entries:
  assumes "distinct (map sd_name ds)"
    and "set (map sd_name ds) \<inter> set (map fst found) = {}"
    and "\<forall>d \<in> set ds. \<forall>a \<in> set (sd_aliases d). alias_ok a"
  shows "scan_skills ds t found = found @ concat (map (keyed_entry t) ds)"
  using assms
proof (induction ds arbitrary: found)
  case Nil
  then show ?case by simp
next
  case (Cons d ds)
  have notin: "sd_name d \<notin> set (map fst found)" using Cons.prems(2) by auto
  have step: "scan_aliases (sd_name d) (sd_category d) (sd_aliases d) t found
                = found @ keyed_entry t d"
    using Cons.prems(3) notin by (intro scan_aliases_entry) auto
  have disj: "set (map sd_name ds) \<inter> set (map fst (found @ keyed_entry t d)) = {}"
  proof -
    have "sd_name d \<notin> set (map sd_name ds)" using Cons.prems(1) by simp
    moreover have "set (map fst (keyed_entry t d)) \<subseteq> {sd_name d}"
      by (auto dest: keyed_entry_keys)
    moreover have "set (map sd_name ds) \<inter> set (map fst found) = {}"
      using Cons.prems(2) by auto
    ultimately show ?thesis by (simp only: map_append set_append) blast
  qed
  have "scan_skills ds t (found @ keyed_entry t d)
          = (found @ keyed_entry t d) @ concat (map (keyed_entry t) ds)"
    using Cons.prems(1,3) disj by (intro Cons.IH) auto
  then show ?case using step by simp
qed

lemma map_snd_keyed: "map snd (concat (map (keyed_entry t) ds)) = concat (map (extracted_entry t) ds)"
  by (induction ds) (simp_all add: keyed_entry_def comp_def)

lemma extract_eq_spec: "fallback_extract_skills message = extract_spec message"
  using scan_skills_entries[OF config_names_distinct _ config_aliases_ok, of "[]" "lower message"]
  by (simp add: fallback_extract_skills_def extract_spec_def map_snd_keyed)

lemma names_extracted:
  "map d_name (concat (map (extracted_entry t) ds))
     = map (\<lambda>d. Some (sd_name d))
         (filter (\<lambda>d. \<exists>a \<in> set (sd_aliases d). whole_word_occurs a t) ds)"
proof (induction ds)
  case Nil
  then show ?case by simp
next
  case (Cons d ds)
  show ?case
  proof (cases "find (\<lambda>a. whole_word_occurs a t) (sd_aliases d)")
    case None
    then have e: "extracted_entry t d = []" by (simp add: extracted_entry_def)
    have "\<not> (\<exists>a \<in> set (sd_aliases d). whole_word_occurs a t)"
      using None by (simp add: find_None_iff)
    then show ?thesis using Cons e by simp
  next
    case (Some a)
    then have "\<exists>a \<in> set (sd_aliases d). whole_word_occurs a t"
      by (auto simp: find_Some_iff)
    then show ?thesis using Cons Some by (simp add: extracted_entry_def)
  qed
qed

lemma conf_extracted:
  "s \<in> set (concat (map (extracted_entry t) ds)) \<Longrightarrow> d_confidence s = Some (7 / 10)"
  by (auto simp: extracted_entry_def split: option.splits)




lemma extracted_entry_props:
  assumes "s \<in> set (concat (map (extracted_entry t) ds))"
  shows "\<exists>d \<in> set ds. d_name s = Some (sd_name d) \<and> d_category s = Some (sd_category d)
           \<and> d_evidence s = find (\<lambda>a. whole_word_occurs a t) (sd_aliases d)
           \<and> d_evidence s \<noteq> None"
proof -
  from assms obtain d where d: "d \<in> set ds" "s \<in> set (extracted_entry t d)" by auto
  show ?thesis
  proof (cases "find (\<lambda>a. whole_word_occurs a t) (sd_aliases d)")
    case None
    with d(2) show ?thesis by (simp add: extracted_entry_def)
  next
    case (Some a)
    with d(2) have "s = \<lparr>d_name = Some (sd_name d), d_category = Some (sd_category d),
                    d_confidence = Some (7 / 10), d_evidence = Some a\<rparr>"
      by (simp add: extracted_entry_def)
    with Some d(1) show ?thesis by (intro bexI[of _ d]) simp_all
  qed
qed

lemma distinct_extracted_names:
  "distinct (map d_name (concat (map (extracted_entry t) SKILL_CONFIG)))"
proof -
  have "distinct (map sd_name (filter (\<lambda>d. \<exists>a \<in> set (sd_aliases d). whole_word_occurs a t) SKILL_CONFIG))"
    using config_names_distinct by (rule distinct_map_filter)
  then have "distinct (map (\<lambda>d. Some (sd_name d)) (filter (\<lambda>d. \<exists>a \<in> set (sd_aliases d). whole_word_occurs a t) SKILL_CONFIG))"
    by (auto simp: distinct_map inj_on_def)
  then show ?thesis by (simp only: names_extracted)
qed

lemma lower_javascripting: "lower ''javascripting'' = ''javascripting''"
  by code_simp

lemma lower_example: "lower ''I use PYTHON and reactjs daily'' = ''i use python and reactjs daily''"
  by code_simp

lemma lower_Nil: "lower [] = []"
  by (simp add: lower_def)

lemma extract_spec_javascripting: "extract_spec ''javascripting'' = []"
  unfolding extract_spec_def lower_javascripting
  by (simp add: SKILL_CONFIG_def mk_def_def extracted_entry_def whole_word_occurs_occ
        is_word_char_def is_alnum_def)

lemma extract_spec_Nil: "extract_spec [] = []"
  unfolding extract_spec_def lower_Nil
  by (simp add: SKILL_CONFIG_def mk_def_def extracted_entry_def whole_word_occurs_occ)

lemma extract_spec_example:
  "extract_spec ''I use PYTHON and reactjs daily'' =
    [\<lparr>d_name = Some ''Python'', d_category = Some ''Programming Language'',
       d_confidence = Some (7 / 10), d_evidence = Some ''python''\<rparr>,
     \<lparr>d_name = Some ''React'', d_category = Some ''Frontend Framework'',
       d_confidence = Some (7 / 10), d_evidence = Some ''reactjs''\<rparr>]"
  unfolding extract_spec_def lower_example
  by (simp add: SKILL_CONFIG_def mk_def_def extracted_entry_def whole_word_occurs_occ
        is_word_char_def is_alnum_def)

text \<open>
  Claim C1. For every text, the extractor returns one entry for each definition of the
  dictionary that has an alias occurring as a whole word in the lower-cased text, in
  declaration order and with no name twice; every entry has confidence 0.7 and, as
  evidence, the first alias in declared order that occurs; a text in which no alias
  occurs, the empty text and the text "javascripting" give the empty list.
\<close>

theorem extract_whole_word_matches:
  "fallback_extract_skills message = extract_spec message
   \<and> map d_name (fallback_extract_skills message)
       = map (\<lambda>d. Some (sd_name d))
           (filter (\<lambda>d. \<exists>a \<in> set (sd_aliases d). whole_word_occurs a (lower message))
              SKILL_CONFIG)
   \<and> distinct (map d_name (fallback_extract_skills message))
   \<and> (\<forall>s \<in> set (fallback_extract_skills message).
         d_confidence s = Some (7 / 10)
         \<and> (\<exists>d \<in> set SKILL_CONFIG.
               d_name s = Some (sd_name d) \<and> d_category s = Some (sd_category d)
               \<and> d_evidence s = find (\<lambda>a. whole_word_occurs a (lower message)) (sd_aliases d)
               \<and> d_evidence s \<noteq> None))
   \<and> ((\<forall>d \<in> set SKILL_CONFIG. \<forall>a \<in> set (sd_aliases d).
          \<not> whole_word_occurs a (lower message))
        \<longrightarrow> fallback_extract_skills message = [])
   \<and> fallback_extract_skills [] = []
   \<and> fallback_extract_skills ''javascripting'' = []"
proof -
  let ?t = "lower message"
  have eq: "fallback_extract_skills message = concat (map (extracted_entry ?t) SKILL_CONFIG)"
    by (simp add: extract_eq_spec extract_spec_def)
  have names: "map d_name (fallback_extract_skills message)
       = map (\<lambda>d. Some (sd_name d))
           (filter (\<lambda>d. \<exists>a \<in> set (sd_aliases d). whole_word_occurs a ?t) SKILL_CONFIG)"
    by (simp only: eq names_extracted)
  have dist: "distinct (map d_name (fallback_extract_skills message))"
    by (simp only: eq distinct_extracted_names)
  have each: "\<forall>s \<in> set (fallback_extract_skills message).
         d_confidence s = Some (7 / 10)
         \<and> (\<exists>d \<in> set SKILL_CONFIG.
               d_name s = Some (sd_name d) \<and> d_category s = Some (sd_category d)
               \<and> d_evidence s = find (\<lambda>a. whole_word_occurs a ?t) (sd_aliases d)
               \<and> d_evidence s \<noteq> None)"
    unfolding eq using conf_extracted extracted_entry_props by blast
  have none: "(\<forall>d \<in> set SKILL_CONFIG. \<forall>a \<in> set (sd_aliases d). \<not> whole_word_occurs a ?t)
        \<longrightarrow> fallback_extract_skills message = []"
  proof
    assume a: "\<forall>d \<in> set SKILL_CONFIG. \<forall>a \<in> set (sd_aliases d). \<not> whole_word_occurs a ?t"
    then have "filter (\<lambda>d. \<exists>a \<in> set (sd_aliases d). whole_word_occurs a ?t) SKILL_CONFIG = []"
      by (simp add: filter_empty_conv)
    with names have "map d_name (fallback_extract_skills message) = []" by simp
    then show "fallback_extract_skills message = []" by simp
  qed
  have e1: "fallback_extract_skills [] = []"
    by (simp only: extract_eq_spec extract_spec_Nil)
  have e2: "fallback_extract_skills ''javascripting'' = []"
    by (simp only: extract_eq_spec extract_spec_javascripting)
  from extract_eq_spec names dist each none e1 e2 show ?thesis by blast
qed

theorem extract_whole_word_matches_witness:
  "fallback_extract_skills ''I use PYTHON and reactjs daily'' =
    [\<lparr>d_name = Some ''Python'', d_category = Some ''Programming Language'',
       d_confidence = Some (7 / 10), d_evidence = Some ''python''\<rparr>,
     \<lparr>d_name = Some ''React'', d_category = Some ''Frontend Framework'',
       d_confidence = Some (7 / 10), d_evidence = Some ''reactjs''\<rparr>]
   \<and> distinct (map d_name (fallback_extract_skills ''I use PYTHON and reactjs daily''))"
  using extract_whole_word_matches [of "''I use PYTHON and reactjs daily''"]
    extract_spec_example
  by simp


section \<open>Role inference: properties\<close>


lemma unique_roles_loop_fresh:
  "distinct rs \<Longrightarrow> set rs \<inter> seen = {} \<Longrightarrow> unique_roles_loop rs seen u = u @ rs"
proof (induction rs arbitrary: seen u)
  case Nil
  then show ?case by simp
next
  case (Cons r rs)
  have "r \<notin> seen" using Cons.prems(2) by auto
  moreover have "set rs \<inter> insert r seen = {}" using Cons.prems by auto
  moreover have "distinct rs" using Cons.prems(1) by simp
  ultimately show ?case using Cons.IH[of "insert r seen" "u @ [r]"] by simp
qed

lemma five_roles:
  fixes b1 b2 b3 b4 b5 :: bool
  defines "rs \<equiv> (if b1 then [''Full-Stack Developer''] else [])
                @ (if b2 then [''Backend Engineer''] else [])
                @ (if b3 then [''DevOps / Cloud Engineer''] else [])
                @ (if b4 then [''Data Engineer / Data Analyst''] else [])
                @ (if b5 then [''LLM / RAG Engineer''] else [])"
  shows "distinct rs" "length rs \<le> 5" "subseq rs ROLE_ORDER"
    "''Full-Stack Developer'' \<in> set rs \<longleftrightarrow> b1"
    "''Backend Engineer'' \<in> set rs \<longleftrightarrow> b2"
    "''DevOps / Cloud Engineer'' \<in> set rs \<longleftrightarrow> b3"
    "''Data Engineer / Data Analyst'' \<in> set rs \<longleftrightarrow> b4"
    "''LLM / RAG Engineer'' \<in> set rs \<longleftrightarrow> b5"
  unfolding rs_def ROLE_ORDER_def
  by (cases b1; cases b2; cases b3; cases b4; cases b5; simp)+


lemma unique_roles_loop_five:
  fixes b1 b2 b3 b4 b5 :: bool
  shows "unique_roles_loop
           ((if b1 then [''Full-Stack Developer''] else [])
            @ (if b2 then [''Backend Engineer''] else [])
            @ (if b3 then [''DevOps / Cloud Engineer''] else [])
            @ (if b4 then [''Data Engineer / Data Analyst''] else [])
            @ (if b5 then [''LLM / RAG Engineer''] else [])) {} []
         = (if b1 then [''Full-Stack Developer''] else [])
            @ (if b2 then [''Backend Engineer''] else [])
            @ (if b3 then [''DevOps / Cloud Engineer''] else [])
            @ (if b4 then [''Data Engineer / Data Analyst''] else [])
            @ (if b5 then [''LLM / RAG Engineer''] else [])"
  using unique_roles_loop_fresh[OF five_roles(1)[of b1 b2 b3 b4 b5], of "{}" "[]"] by simp







lemma fired_roles_five:
  "fired_roles [b1, b2, b3, b4, b5]
     = (if b1 then [''Full-Stack Developer''] else [])
       @ (if b2 then [''Backend Engineer''] else [])
       @ (if b3 then [''DevOps / Cloud Engineer''] else [])
       @ (if b4 then [''Data Engineer / Data Analyst''] else [])
       @ (if b5 then [''LLM / RAG Engineer''] else [])"
  by (simp add: fired_roles_def ROLE_ORDER_def)

lemma any_in_iff: "any_in names xs \<longleftrightarrow> names \<inter> set xs \<noteq> {}"
  by (auto simp: any_in_def list_ex_iff)

lemma infer_roles_fired:
  "infer_roles_from_skill_names skill_names = fired_roles (profile_rules (set skill_names))"
  unfolding infer_roles_from_skill_names_def Let_def unique_roles_loop_five
    profile_rules_def fired_roles_five any_in_iff
  by simp

lemma composer_roles_fired:
  "composer_roles skill_names = fired_roles (composer_rules (set skill_names))"
  unfolding composer_roles_def Let_def unique_roles_loop_five
    composer_rules_def fired_roles_five any_in_iff
  by simp

lemma fired_roles_props:
  assumes "length bs = 5"
  shows "distinct (fired_roles bs)" "length (fired_roles bs) \<le> 5"
    "subseq (fired_roles bs) ROLE_ORDER"
    "\<And>i. i < 5 \<Longrightarrow> (ROLE_ORDER ! i \<in> set (fired_roles bs)) = bs ! i"
proof -
  from assms obtain b1 b2 b3 b4 b5 where bs: "bs = [b1, b2, b3, b4, b5]"
    by (auto simp: length_Suc_conv eval_nat_numeral)
  show "distinct (fired_roles bs)" "length (fired_roles bs) \<le> 5"
    "subseq (fired_roles bs) ROLE_ORDER"
    unfolding bs fired_roles_five by (rule five_roles)+
  fix i :: nat assume "i < 5"
  then consider "i = 0" | "i = 1" | "i = 2" | "i = 3" | "i = 4" by linarith
  then show "(ROLE_ORDER ! i \<in> set (fired_roles bs)) = bs ! i"
    unfolding bs fired_roles_five
    by cases (simp_all add: ROLE_ORDER_def five_roles)
qed

text \<open>
  Claim C6. For every list of skill names, both role inferencers (the one of the profile
  endpoint and the one of the chat composer) return the roles whose rules fire, each rule
  on its own, in the fixed order of the rules, with no role twice and at most five roles;
  for the skills React and FastAPI both return Full-Stack Developer and then
  Backend Engineer.
\<close>

theorem roles_deduplicated_ordered:
  "infer_roles_from_skill_names skill_names = fired_roles (profile_rules (set skill_names))
   \<and> composer_roles skill_names = fired_roles (composer_rules (set skill_names))
   \<and> distinct (infer_roles_from_skill_names skill_names)
   \<and> distinct (composer_roles skill_names)
   \<and> length (infer_roles_from_skill_names skill_names) \<le> 5
   \<and> length (composer_roles skill_names) \<le> 5
   \<and> subseq (infer_roles_from_skill_names skill_names) ROLE_ORDER
   \<and> subseq (composer_roles skill_names) ROLE_ORDER
   \<and> (\<forall>i < 5. (ROLE_ORDER ! i \<in> set (infer_roles_from_skill_names skill_names))
                 = profile_rules (set skill_names) ! i)
   \<and> (\<forall>i < 5. (ROLE_ORDER ! i \<in> set (composer_roles skill_names))
                 = composer_rules (set skill_names) ! i)
   \<and> infer_roles_from_skill_names [''React'', ''FastAPI'']
       = [''Full-Stack Developer'', ''Backend Engineer'']
   \<and> composer_roles [''React'', ''FastAPI'']
       = [''Full-Stack Developer'', ''Backend Engineer'']"
proof -
  have lp: "length (profile_rules (set skill_names)) = 5" by (simp add: profile_rules_def)
  have lc: "length (composer_rules (set skill_names)) = 5" by (simp add: composer_rules_def)
  have e1: "infer_roles_from_skill_names [''React'', ''FastAPI'']
              = [''Full-Stack Developer'', ''Backend Engineer'']"
    by (simp add: infer_roles_fired profile_rules_def fired_roles_five)
  have e2: "composer_roles [''React'', ''FastAPI'']
              = [''Full-Stack Developer'', ''Backend Engineer'']"
    by (simp add: composer_roles_fired composer_rules_def fired_roles_five)
  show ?thesis
    using fired_roles_props[OF lp] fired_roles_props[OF lc] e1 e2
    by (simp add: infer_roles_fired composer_roles_fired)
qed

theorem roles_deduplicated_ordered_witness:
  "infer_roles_from_skill_names [''SQL'', ''Docker'', ''React'', ''Express'']
     = [''Full-Stack Developer'', ''Backend Engineer'', ''DevOps / Cloud Engineer'',
        ''Data Engineer / Data Analyst'']
   \<and> composer_roles [''SQL'', ''Machine Learning'']
     = [''Backend Engineer'', ''Data Engineer / Data Analyst'', ''LLM / RAG Engineer'']
   \<and> infer_roles_from_skill_names [''SQL'', ''Machine Learning'']
     = [''Data Engineer / Data Analyst'']
   \<and> distinct (infer_roles_from_skill_names [''SQL'', ''Docker'', ''React'', ''Express''])"
  using roles_deduplicated_ordered [of "[''SQL'', ''Docker'', ''React'', ''Express'']"]
    roles_deduplicated_ordered [of "[''SQL'', ''Machine Learning'']"]
  by (simp add: profile_rules_def composer_rules_def fired_roles_five)


section \<open>The response composer: properties\<close>

lemma names_of_present:
  "\<forall>s \<in> set ss. d_name s \<noteq> None \<Longrightarrow> names_of ss = Inr (map (\<lambda>s. the (d_name s)) ss)"
  by (induction ss) auto

lemma names_of_Inr_length: "names_of ss = Inr ns \<Longrightarrow> length ns = length ss"
  by (induction ss arbitrary: ns) (auto split: option.splits sum.splits)

lemma strip_lower_hi: "lower (strip ''hi'') = ''hi''"
  by code_simp

lemma strip_lower_Nil: "lower (strip []) = []"
  by (simp add: strip_def lower_def)

lemma strip_lower_hello: "lower (strip '' Hello  '') = ''hello''"
  by code_simp

lemma strip_lower_thanks: "lower (strip ''thanks'') = ''thanks''"
  by code_simp

lemma roles_react_fastapi:
  "composer_roles [''React'', ''FastAPI''] = [''Full-Stack Developer'', ''Backend Engineer'']"
  by (simp add: composer_roles_fired composer_rules_def fired_roles_five)

lemma roles_jenkins: "composer_roles [''Jenkins''] = []"
  by (simp add: composer_roles_fired composer_rules_def fired_roles_five)

lemma greet_hello: "''hello'' \<in> greetings" "''thanks'' \<notin> greetings"
  by (simp_all add: greetings_def)

text \<open>
  Claim C7. The composer has three branches: an empty skill list with a message that,
  stripped and lower-cased, is one of the six greetings gives the greeting reply; an empty
  skill list with any other message (the empty one too) gives the guidance reply; a
  non-empty skill list gives the acknowledgement, the names joined by commas in the order
  of the list, the roles sentence (the suggested roles joined by commas, or the general
  sentence when no rule fires) and the closing question. The texts are spelled out.
\<close>

theorem compose_three_branches:
  "(skills = [] \<and> lower (strip message) \<in> {''hi'', ''hello'', ''hey'', ''hii'', ''hey there'', ''hola''}
      \<longrightarrow> fallback_response message skills
          = Inr (code_points ''Hey! '' @ [0xF0, 0x178, 0x2018, 0x2039]
            @ code_points
               ('' I''
                @ [CHR 0x27]
                @ ''m your skill assistant.''
                @ [CHR 0x0A, CHR 0x0A]
                @ ''Tell me about your experience or paste a resume bullet, and I''
                @ [CHR 0x27]
                @ ''ll identify your key skills and suggest matching roles.'')))
   \<and> (skills = [] \<and> lower (strip message) \<notin> {''hi'', ''hello'', ''hey'', ''hii'', ''hey there'', ''hola''}
      \<longrightarrow> fallback_response message skills
          = Inr (code_points
              (''Thanks for sharing! I didn''
               @ [CHR 0x27]
               @ ''t catch specific technologies from that message.''
               @ [CHR 0x0A, CHR 0x0A]
               @ ''Try mentioning some languages (Python, JavaScript), frameworks ''
               @ ''(React, FastAPI, Django), databases (MongoDB, PostgreSQL), or cloud ''
               @ ''tools (AWS, Docker), and I''
               @ [CHR 0x27]
               @ ''ll extract skills and build your profile.'')))
   \<and> (skills \<noteq> [] \<and> (\<forall>s \<in> set skills. d_name s \<noteq> None)
      \<longrightarrow> fallback_response message skills
          = Inr (code_points
              (''Nice, thanks for the context!''
               @ [CHR 0x0A, CHR 0x0A]
               @ ''I can clearly see these skills in your message: ''
               @ join '', '' (map (\<lambda>s. the (d_name s)) skills) @ ''.'' @ [CHR 0x0A]
               @ (if composer_roles (map (\<lambda>s. the (d_name s)) skills) \<noteq> []
                  then ''From this stack, some good role targets could be: ''
                       @ join '', '' (composer_roles (map (\<lambda>s. the (d_name s)) skills)) @ ''.''
                  else ''This combination of skills can map to multiple roles depending on ''
                       @ ''your interests and experience.'')
               @ [CHR 0x0A, CHR 0x0A]
               @ ''What kind of roles are you aiming for (backend, full-stack, data, ''
               @ ''DevOps, AI/RAG)? I can help you map your skills to those roles and ''
               @ ''suggest what to learn next.'')))
   \<and> fallback_response [] []
       = Inr (code_points
              (''Thanks for sharing! I didn''
               @ [CHR 0x27]
               @ ''t catch specific technologies from that message.''
               @ [CHR 0x0A, CHR 0x0A]
               @ ''Try mentioning some languages (Python, JavaScript), frameworks ''
               @ ''(React, FastAPI, Django), databases (MongoDB, PostgreSQL), or cloud ''
               @ ''tools (AWS, Docker), and I''
               @ [CHR 0x27]
               @ ''ll extract skills and build your profile.''))
   \<and> fallback_response ''hi'' []
       = Inr (code_points ''Hey! '' @ [0xF0, 0x178, 0x2018, 0x2039]
            @ code_points
               ('' I''
                @ [CHR 0x27]
                @ ''m your skill assistant.''
                @ [CHR 0x0A, CHR 0x0A]
                @ ''Tell me about your experience or paste a resume bullet, and I''
                @ [CHR 0x27]
                @ ''ll identify your key skills and suggest matching roles.''))"
proof -
  have b3: "fallback_response message skills
          = Inr (code_points
              (''Nice, thanks for the context!''
               @ [CHR 0x0A, CHR 0x0A]
               @ ''I can clearly see these skills in your message: ''
               @ join '', '' (map (\<lambda>s. the (d_name s)) skills) @ ''.'' @ [CHR 0x0A]
               @ (if composer_roles (map (\<lambda>s. the (d_name s)) skills) \<noteq> []
                  then ''From this stack, some good role targets could be: ''
                       @ join '', '' (composer_roles (map (\<lambda>s. the (d_name s)) skills)) @ ''.''
                  else ''This combination of skills can map to multiple roles depending on ''
                       @ ''your interests and experience.'')
               @ [CHR 0x0A, CHR 0x0A]
               @ ''What kind of roles are you aiming for (backend, full-stack, data, ''
               @ ''DevOps, AI/RAG)? I can help you map your skills to those roles and ''
               @ ''suggest what to learn next.''))"
    if "skills \<noteq> []" "\<forall>s \<in> set skills. d_name s \<noteq> None"
    using that names_of_present[OF that(2)]
    by (simp add: fallback_response_def Let_def roles_sentence_def reply_head_def
          reply_question_def)
  have e1: "fallback_response [] []
       = Inr (code_points
              (''Thanks for sharing! I didn''
               @ [CHR 0x27]
               @ ''t catch specific technologies from that message.''
               @ [CHR 0x0A, CHR 0x0A]
               @ ''Try mentioning some languages (Python, JavaScript), frameworks ''
               @ ''(React, FastAPI, Django), databases (MongoDB, PostgreSQL), or cloud ''
               @ ''tools (AWS, Docker), and I''
               @ [CHR 0x27]
               @ ''ll extract skills and build your profile.''))"
    by (simp add: fallback_response_def strip_lower_Nil greetings_def no_skills_reply_def)
  have e2: "fallback_response ''hi'' []
       = Inr (code_points ''Hey! '' @ [0xF0, 0x178, 0x2018, 0x2039]
            @ code_points
               ('' I''
                @ [CHR 0x27]
                @ ''m your skill assistant.''
                @ [CHR 0x0A, CHR 0x0A]
                @ ''Tell me about your experience or paste a resume bullet, and I''
                @ [CHR 0x27]
                @ ''ll identify your key skills and suggest matching roles.''))"
    by (simp add: fallback_response_def strip_lower_hi greetings_def greeting_reply_def)
  have b1: "fallback_response message skills
          = Inr (code_points ''Hey! '' @ [0xF0, 0x178, 0x2018, 0x2039]
            @ code_points
               ('' I''
                @ [CHR 0x27]
                @ ''m your skill assistant.''
                @ [CHR 0x0A, CHR 0x0A]
                @ ''Tell me about your experience or paste a resume bullet, and I''
                @ [CHR 0x27]
                @ ''ll identify your key skills and suggest matching roles.''))"
    if "skills = []" "lower (strip message) \<in> {''hi'', ''hello'', ''hey'', ''hii'', ''hey there'', ''hola''}"
    using that by (simp add: fallback_response_def Let_def greetings_def greeting_reply_def)
  have b2: "fallback_response message skills
          = Inr (code_points
              (''Thanks for sharing! I didn''
               @ [CHR 0x27]
               @ ''t catch specific technologies from that message.''
               @ [CHR 0x0A, CHR 0x0A]
               @ ''Try mentioning some languages (Python, JavaScript), frameworks ''
               @ ''(React, FastAPI, Django), databases (MongoDB, PostgreSQL), or cloud ''
               @ ''tools (AWS, Docker), and I''
               @ [CHR 0x27]
               @ ''ll extract skills and build your profile.''))"
    if "skills = []" "lower (strip message) \<notin> {''hi'', ''hello'', ''hey'', ''hii'', ''hey there'', ''hola''}"
    using that by (simp add: fallback_response_def Let_def greetings_def no_skills_reply_def)
  from b1 b2 b3 e1 e2 show ?thesis by blast
qed

theorem compose_three_branches_witness:
  "fallback_response '' Hello  '' []
     = Inr (code_points ''Hey! '' @ [0xF0, 0x178, 0x2018, 0x2039]
            @ code_points
               ('' I''
                @ [CHR 0x27]
                @ ''m your skill assistant.''
                @ [CHR 0x0A, CHR 0x0A]
                @ ''Tell me about your experience or paste a resume bullet, and I''
                @ [CHR 0x27]
                @ ''ll identify your key skills and suggest matching roles.''))
   \<and> length (code_points ''Hey! '' @ [0xF0, 0x178, 0x2018, 0x2039]
            @ code_points
               ('' I''
                @ [CHR 0x27]
                @ ''m your skill assistant.''
                @ [CHR 0x0A, CHR 0x0A]
                @ ''Tell me about your experience or paste a resume bullet, and I''
                @ [CHR 0x27]
                @ ''ll identify your key skills and suggest matching roles.'')) = 154
   \<and> fallback_response ''thanks'' []
     = Inr (code_points
              (''Thanks for sharing! I didn''
               @ [CHR 0x27]
               @ ''t catch specific technologies from that message.''
               @ [CHR 0x0A, CHR 0x0A]
               @ ''Try mentioning some languages (Python, JavaScript), frameworks ''
               @ ''(React, FastAPI, Django), databases (MongoDB, PostgreSQL), or cloud ''
               @ ''tools (AWS, Docker), and I''
               @ [CHR 0x27]
               @ ''ll extract skills and build your profile.''))
   \<and> fallback_response ''thanks''
        [\<lparr>d_name = Some ''React'', d_category = Some ''Frontend Framework'',
           d_confidence = Some (7 / 10), d_evidence = Some ''react''\<rparr>,
         \<lparr>d_name = Some ''FastAPI'', d_category = Some ''Backend Framework'',
           d_confidence = Some (7 / 10), d_evidence = Some ''fastapi''\<rparr>]
     = Inr (code_points
              (''Nice, thanks for the context!''
               @ [CHR 0x0A, CHR 0x0A]
               @ ''I can clearly see these skills in your message: ''
               @ ''React, FastAPI.'' @ [CHR 0x0A]
               @ ''From this stack, some good role targets could be: ''
               @ ''Full-Stack Developer, Backend Engineer.''
               @ [CHR 0x0A, CHR 0x0A]
               @ ''What kind of roles are you aiming for (backend, full-stack, data, ''
               @ ''DevOps, AI/RAG)? I can help you map your skills to those roles and ''
               @ ''suggest what to learn next.''))
   \<and> fallback_response ''thanks''
        [\<lparr>d_name = Some ''Jenkins'', d_category = Some ''DevOps'',
           d_confidence = Some (7 / 10), d_evidence = Some ''jenkins''\<rparr>]
     = Inr (code_points
              (''Nice, thanks for the context!''
               @ [CHR 0x0A, CHR 0x0A]
               @ ''I can clearly see these skills in your message: ''
               @ ''Jenkins.'' @ [CHR 0x0A]
               @ ''This combination of skills can map to multiple roles depending on ''
               @ ''your interests and experience.''
               @ [CHR 0x0A, CHR 0x0A]
               @ ''What kind of roles are you aiming for (backend, full-stack, data, ''
               @ ''DevOps, AI/RAG)? I can help you map your skills to those roles and ''
               @ ''suggest what to learn next.''))"
proof -
  let ?sk = "[\<lparr>d_name = Some ''React'', d_category = Some ''Frontend Framework'',
           d_confidence = Some (7 / 10), d_evidence = Some ''react''\<rparr>,
         \<lparr>d_name = Some ''FastAPI'', d_category = Some ''Backend Framework'',
           d_confidence = Some (7 / 10), d_evidence = Some ''fastapi''\<rparr>]"
  let ?sj = "[\<lparr>d_name = Some ''Jenkins'', d_category = Some ''DevOps'',
           d_confidence = Some (7 / 10), d_evidence = Some ''jenkins''\<rparr>]"
  have w1: "fallback_response '' Hello  '' []
     = Inr (code_points ''Hey! '' @ [0xF0, 0x178, 0x2018, 0x2039]
            @ code_points
               ('' I''
                @ [CHR 0x27]
                @ ''m your skill assistant.''
                @ [CHR 0x0A, CHR 0x0A]
                @ ''Tell me about your experience or paste a resume bullet, and I''
                @ [CHR 0x27]
                @ ''ll identify your key skills and suggest matching roles.''))"
    using compose_three_branches [where message = "'' Hello  ''" and skills = "[]"]
    by (simp add: strip_lower_hello)
  have w2: "fallback_response ''thanks'' []
     = Inr (code_points
              (''Thanks for sharing! I didn''
               @ [CHR 0x27]
               @ ''t catch specific technologies from that message.''
               @ [CHR 0x0A, CHR 0x0A]
               @ ''Try mentioning some languages (Python, JavaScript), frameworks ''
               @ ''(React, FastAPI, Django), databases (MongoDB, PostgreSQL), or cloud ''
               @ ''tools (AWS, Docker), and I''
               @ [CHR 0x27]
               @ ''ll extract skills and build your profile.''))"
    using compose_three_branches [where message = "''thanks''" and skills = "[]"]
    by (simp add: strip_lower_thanks)
  have n: "map (\<lambda>s. the (d_name s)) ?sk = [''React'', ''FastAPI'']" by simp
  have p: "?sk \<noteq> [] \<and> (\<forall>s \<in> set ?sk. d_name s \<noteq> None)" by simp
  from compose_three_branches [where message = "''thanks''" and skills = ?sk] p
  have "fallback_response ''thanks'' ?sk
          = Inr (code_points
              (''Nice, thanks for the context!''
               @ [CHR 0x0A, CHR 0x0A]
               @ ''I can clearly see these skills in your message: ''
               @ join '', '' (map (\<lambda>s. the (d_name s)) ?sk) @ ''.'' @ [CHR 0x0A]
               @ (if composer_roles (map (\<lambda>s. the (d_name s)) ?sk) \<noteq> []
                  then ''From this stack, some good role targets could be: ''
                       @ join '', '' (composer_roles (map (\<lambda>s. the (d_name s)) ?sk)) @ ''.''
                  else ''This combination of skills can map to multiple roles depending on ''
                       @ ''your interests and experience.'')
               @ [CHR 0x0A, CHR 0x0A]
               @ ''What kind of roles are you aiming for (backend, full-stack, data, ''
               @ ''DevOps, AI/RAG)? I can help you map your skills to those roles and ''
               @ ''suggest what to learn next.''))"
    by blast
  then have w3: "fallback_response ''thanks'' ?sk
     = Inr (code_points
              (''Nice, thanks for the context!''
               @ [CHR 0x0A, CHR 0x0A]
               @ ''I can clearly see these skills in your message: ''
               @ ''React, FastAPI.'' @ [CHR 0x0A]
               @ ''From this stack, some good role targets could be: ''
               @ ''Full-Stack Developer, Backend Engineer.''
               @ [CHR 0x0A, CHR 0x0A]
               @ ''What kind of roles are you aiming for (backend, full-stack, data, ''
               @ ''DevOps, AI/RAG)? I can help you map your skills to those roles and ''
               @ ''suggest what to learn next.''))"
    unfolding n roles_react_fastapi by simp
  have nj: "map (\<lambda>s. the (d_name s)) ?sj = [''Jenkins'']" by simp
  have pj: "?sj \<noteq> [] \<and> (\<forall>s \<in> set ?sj. d_name s \<noteq> None)" by simp
  from compose_three_branches [where message = "''thanks''" and skills = ?sj] pj
  have "fallback_response ''thanks'' ?sj
          = Inr (code_points
              (''Nice, thanks for the context!''
               @ [CHR 0x0A, CHR 0x0A]
               @ ''I can clearly see these skills in your message: ''
               @ join '', '' (map (\<lambda>s. the (d_name s)) ?sj) @ ''.'' @ [CHR 0x0A]
               @ (if composer_roles (map (\<lambda>s. the (d_name s)) ?sj) \<noteq> []
                  then ''From this stack, some good role targets could be: ''
                       @ join '', '' (composer_roles (map (\<lambda>s. the (d_name s)) ?sj)) @ ''.''
                  else ''This combination of skills can map to multiple roles depending on ''
                       @ ''your interests and experience.'')
               @ [CHR 0x0A, CHR 0x0A]
               @ ''What kind of roles are you aiming for (backend, full-stack, data, ''
               @ ''DevOps, AI/RAG)? I can help you map your skills to those roles and ''
               @ ''suggest what to learn next.''))"
    by blast
  then have w4: "fallback_response ''thanks'' ?sj
     = Inr (code_points
              (''Nice, thanks for the context!''
               @ [CHR 0x0A, CHR 0x0A]
               @ ''I can clearly see these skills in your message: ''
               @ ''Jenkins.'' @ [CHR 0x0A]
               @ ''This combination of skills can map to multiple roles depending on ''
               @ ''your interests and experience.''
               @ [CHR 0x0A, CHR 0x0A]
               @ ''What kind of roles are you aiming for (backend, full-stack, data, ''
               @ ''DevOps, AI/RAG)? I can help you map your skills to those roles and ''
               @ ''suggest what to learn next.''))"
    unfolding nj roles_jenkins by simp
  have len: "length (code_points ''Hey! '' @ [0xF0, 0x178, 0x2018, 0x2039]
            @ code_points
               ('' I''
                @ [CHR 0x27]
                @ ''m your skill assistant.''
                @ [CHR 0x0A, CHR 0x0A]
                @ ''Tell me about your experience or paste a resume bullet, and I''
                @ [CHR 0x27]
                @ ''ll identify your key skills and suggest matching roles.'')) = 154"
    by (simp add: code_points_def)
  from w1 len w2 w3 w4 show ?thesis by blast
qed

lemma replies_nonempty:
  "greeting_reply \<noteq> []" "no_skills_reply \<noteq> []" "reply_head \<noteq> []"
  by (simp_all add: greeting_reply_def no_skills_reply_def reply_head_def code_points_def)

lemma fallback_response_total:
  assumes "\<forall>s \<in> set skills. d_name s \<noteq> None"
  shows "\<exists>reply. fallback_response message skills = Inr reply \<and> reply \<noteq> []"
  using names_of_present[OF assms] replies_nonempty
  by (simp add: fallback_response_def Let_def code_points_def)

lemma extracted_fields_present:
  assumes "s \<in> set (fallback_extract_skills message)"
  shows "d_name s \<noteq> None \<and> d_category s \<noteq> None \<and> d_confidence s \<noteq> None
         \<and> d_evidence s \<noteq> None"
proof -
  have "s \<in> set (concat (map (extracted_entry (lower message)) SKILL_CONFIG))"
    using assms by (simp add: extract_eq_spec extract_spec_def)
  from extracted_entry_props[OF this] conf_extracted[OF this] show ?thesis by auto
qed

text \<open>
  Claim C5. With the LLM path disabled or the API key unset or empty, the analysis
  returns for every message a reply and the extracted skills, never an error: the reply
  is the non-empty text of the composer and every skill has its four fields.
\<close>

theorem analyze_total:
  assumes "\<not> use_llm \<or> api_key = None \<or> api_key = Some []"
  shows "\<exists>reply. analyze_message message use_llm api_key llm
                    = Inr (reply, fallback_extract_skills message)
           \<and> fallback_response message (fallback_extract_skills message) = Inr reply
           \<and> reply \<noteq> []
           \<and> (\<forall>s \<in> set (fallback_extract_skills message).
                 d_name s \<noteq> None \<and> d_category s \<noteq> None \<and> d_confidence s \<noteq> None
                 \<and> d_evidence s \<noteq> None)"
proof -
  have present: "\<forall>s \<in> set (fallback_extract_skills message). d_name s \<noteq> None"
    using extracted_fields_present by blast
  from fallback_response_total[OF present]
  obtain reply where r: "fallback_response message (fallback_extract_skills message) = Inr reply"
    "reply \<noteq> []" by blast
  have "analyze_message message use_llm api_key llm
          = Inr (reply, fallback_extract_skills message)"
    using assms r(1) by (auto simp: analyze_message_def Let_def)
  with r extracted_fields_present show ?thesis by blast
qed

theorem analyze_total_witness:
  "(\<exists>reply. analyze_message [] False (Some ''key'') (\<lambda>m. Inl UpstreamError) = Inr (reply, [])
       \<and> reply = no_skills_reply)
   \<and> (\<exists>reply. analyze_message ''javascripting'' True None (\<lambda>m. Inr (code_points ''unused'', [])) = Inr (reply, [])
       \<and> reply = no_skills_reply)"
proof -
  have e1: "fallback_extract_skills [] = []"
    by (simp only: extract_eq_spec extract_spec_Nil)
  have e2: "fallback_extract_skills ''javascripting'' = []"
    by (simp only: extract_eq_spec extract_spec_javascripting)
  have g: "lower (strip ''javascripting'') \<notin> greetings"
    by (simp add: greetings_def) code_simp
  show ?thesis
    using analyze_total [of False "Some ''key''" "[]" "\<lambda>m. Inl UpstreamError"]
      analyze_total [of True None "''javascripting''" "\<lambda>m. Inr (code_points ''unused'', [])"]
      e1 e2 g
    by (auto simp: fallback_response_def strip_lower_Nil greetings_def)
qed

section \<open>The session profile: properties\<close>

lemma map_fst_update_entry: "map fst (update_entry k f d) = map fst d"
  by (induction d) (auto simp: update_entry_def)

lemma update_entry_twice:
  "update_entry k f (update_entry k g d) = update_entry k (f \<circ> g) d"
  by (induction d) (auto simp: update_entry_def)

lemma update_entry_absent: "k \<notin> set (map fst d) \<Longrightarrow> update_entry k f d = d"
  by (induction d) (auto simp: update_entry_def)

lemma update_entry_append:
  "update_entry k f (d @ e) = update_entry k f d @ update_entry k f e"
  by (simp add: update_entry_def)

lemma update_entry_map:
  "update_entry k f d = map (\<lambda>q. if fst q = k then (fst q, f (snd q)) else q) d"
  by (simp add: update_entry_def case_prod_beta)

lemma occurrences_snoc:
  "occurrences n (es @ [s]) = (if key_of s = n then occurrences n es @ [s] else occurrences n es)"
  by (simp add: occurrences_def)

lemma occurrences_empty_iff: "occurrences n es = [] \<longleftrightarrow> n \<notin> key_of ` set es"
  by (auto simp: occurrences_def filter_empty_conv)

lemma counted_keys_snoc:
  "counted_keys (es @ [s]) = (if key_of s = [] then counted_keys es
                              else insert (key_of s) (counted_keys es))"
  by (auto simp: counted_keys_def)

lemma in_counted_keys: "n \<in> counted_keys es \<longleftrightarrow> n \<noteq> [] \<and> n \<in> key_of ` set es"
  by (auto simp: counted_keys_def)

lemma float_sum_snoc: "float_sum rnd (cs @ [c]) = float_add rnd (float_sum rnd cs) c"
  by (simp add: float_sum_def)

lemma float_sum_Nil: "float_sum rnd [] = 0"
  by (simp add: float_sum_def)

lemma stat_ok_other:
  assumes "stat_ok rnd es (n, i)" "key_of s \<noteq> n"
  shows "stat_ok rnd (es @ [s]) (n, i)"
  using assms by (simp add: stat_ok_def occurrences_snoc float_sum_snoc)

lemma stat_ok_bump:
  assumes "stat_ok rnd es (n, i)" "key_of s = n"
  shows "stat_ok rnd (es @ [s])
           (n, i\<lparr>i_count := i_count i + 1, i_sum_conf := float_add rnd (i_sum_conf i) (conf_of s)\<rparr>)"
  using assms by (simp add: stat_ok_def occurrences_snoc float_sum_snoc)

lemma stat_ok_new:
  assumes "key_of s = n" "n \<noteq> []" "n \<notin> counted_keys es"
  shows "stat_ok rnd (es @ [s])
           (n, \<lparr>i_name = n, i_category = category_of s, i_count = 1, i_sum_conf = float_add rnd 0 (conf_of s)\<rparr>)"
proof -
  have "occurrences n es = []" using assms(2,3) by (simp add: occurrences_empty_iff in_counted_keys)
  then show ?thesis using assms(1,2) by (simp add: stat_ok_def occurrences_snoc float_sum_def)
qed


lemma count_skill_blank: "key_of s = [] \<Longrightarrow> count_skill rnd stats s = stats"
  by (simp add: count_skill_def)

lemma count_skill_map:
  assumes "key_of s \<noteq> []"
  shows "count_skill rnd stats s =
     map (\<lambda>q. if fst q = key_of s
               then (fst q, (snd q)\<lparr>i_count := i_count (snd q) + 1,
                                     i_sum_conf := float_add rnd (i_sum_conf (snd q)) (conf_of s)\<rparr>)
               else q)
       (if key_of s \<notin> set (map fst stats)
        then stats @ [(key_of s, \<lparr>i_name = key_of s, i_category = category_of s,
                                 i_count = 0, i_sum_conf = 0\<rparr>)]
        else stats)"
  using assms
  by (simp add: count_skill_def Let_def update_entry_twice update_entry_map comp_def)

lemma agg_inv_step:
  assumes inv: "agg_inv rnd es stats"
  shows "agg_inv rnd (es @ [s]) (count_skill rnd stats s)"
proof (cases "key_of s = []")
  case True
  have "stat_ok rnd (es @ [s]) p" if "p \<in> set stats" for p
  proof -
    obtain n i where p: "p = (n, i)" by (cases p)
    have ok: "stat_ok rnd es (n, i)" using inv that p by (simp add: agg_inv_def)
    then have "n \<noteq> []" by (simp add: stat_ok_def)
    with True have "key_of s \<noteq> n" by simp
    from stat_ok_other[OF ok this] p show ?thesis by simp
  qed
  then show ?thesis
    using inv True by (simp add: agg_inv_def count_skill_blank counted_keys_snoc)
next
  case False
  let ?k = "key_of s"
  let ?new = "(?k, \<lparr>i_name = ?k, i_category = category_of s, i_count = 0, i_sum_conf = 0\<rparr>)"
  let ?stats1 = "if ?k \<notin> set (map fst stats) then stats @ [?new] else stats"
  let ?g = "\<lambda>q. if fst q = ?k
               then (fst q, (snd q)\<lparr>i_count := i_count (snd q) + 1,
                                     i_sum_conf := float_add rnd (i_sum_conf (snd q)) (conf_of s)\<rparr>)
               else q"
  have res: "count_skill rnd stats s = map ?g ?stats1" by (rule count_skill_map[OF False])
  have fst_g: "map fst (map ?g xs) = map fst xs" for xs :: stats_dict
    by (induction xs) auto
  have keys: "set (map fst stats) = counted_keys es" and dist: "distinct (map fst stats)"
    and oks: "\<And>p. p \<in> set stats \<Longrightarrow> stat_ok rnd es p"
    using inv by (simp_all add: agg_inv_def)
  have d1: "distinct (map fst ?stats1)" using dist by simp
  have k1: "set (map fst ?stats1) = counted_keys (es @ [s])"
    using keys False by (auto simp: counted_keys_snoc)
  have ok1: "stat_ok rnd (es @ [s]) (?g q)" if q: "q \<in> set ?stats1" for q
  proof (cases "q \<in> set stats")
    case True
    obtain n i where qq: "q = (n, i)" by (cases q)
    have ok: "stat_ok rnd es (n, i)" using oks[OF True] qq by simp
    show ?thesis
    proof (cases "n = ?k")
      case True
      from stat_ok_bump[OF ok True[symmetric]] qq True show ?thesis by simp
    next
      case False
      then have "key_of s \<noteq> n" by simp
      from stat_ok_other[OF ok this] qq False show ?thesis by simp
    qed
  next
    case notin: False
    with q have new: "q = ?new" and fresh: "?k \<notin> set (map fst stats)"
      by (auto split: if_splits)
    have "?k \<notin> counted_keys es" using fresh keys by simp
    from stat_ok_new[OF refl False this] new show ?thesis by simp
  qed
  show ?thesis
    unfolding agg_inv_def res
  proof (intro conjI ballI)
    show "distinct (map fst (map ?g ?stats1))" by (simp only: fst_g d1)
    show "set (map fst (map ?g ?stats1)) = counted_keys (es @ [s])" by (simp only: fst_g k1)
    fix p assume "p \<in> set (map ?g ?stats1)"
    then obtain q where q: "q \<in> set ?stats1" and p: "p = ?g q"
      unfolding set_map by blast
    from ok1[OF q] show "stat_ok rnd (es @ [s]) p" unfolding p .
  qed
qed

lemma agg_inv_foldl: "agg_inv rnd es (foldl (count_skill rnd) [] es)"
proof (induction es rule: rev_induct)
  case Nil
  show ?case by (simp add: agg_inv_def counted_keys_def)
next
  case (snoc s es)
  then show ?case by (simp add: agg_inv_step)
qed

lemma foldl_count_turn:
  "foldl (count_turn rnd) stats turns = foldl (count_skill rnd) stats (entries_of turns)"
  by (induction turns arbitrary: stats) (simp_all add: entries_of_def count_turn_def)

lemma set_sort_reverse: "set (sort_reverse xs) = set xs"
  by (simp add: sort_reverse_def)

lemma length_sort_reverse: "length (sort_reverse xs) = length xs"
  by (simp add: sort_reverse_def)

lemma distinct_sort_reverse: "distinct (map f (sort_reverse xs)) = distinct (map f xs)"
proof -
  have "distinct (sort_reverse xs) = distinct xs" by (simp add: sort_reverse_def)
  then show ?thesis by (simp add: distinct_map set_sort_reverse)
qed

lemma sort_reverse_sorted: "sorted_wrt by_count_then_avg (sort_reverse xs)"
proof -
  let ?f = "\<lambda>s. (c_count s, c_avg_confidence s)"
  have "sorted (map ?f (sort_key ?f (rev xs)))" by (rule sorted_sort_key)
  then have "sorted_wrt (\<lambda>a b. ?f a \<le> ?f b) (sort_key ?f (rev xs))"
    by (simp only: sorted_map)
  then have "sorted_wrt (\<lambda>a b. ?f b \<le> ?f a) (rev (sort_key ?f (rev xs)))"
    by (simp only: sorted_wrt_rev)
  moreover have "(\<lambda>a b. ?f b \<le> ?f a) = by_count_then_avg"
    by (intro ext) (auto simp: by_count_then_avg_def less_eq_prod_def)
  ultimately show ?thesis by (simp only: sort_reverse_def)
qed

lemma get_profile_found:
  assumes "filter (\<lambda>t. session_id t = sid) db \<noteq> []"
  shows "get_profile rnd sid db =
     Inr \<lparr>p_session_id = sid,
          total_turns = int (length (filter (\<lambda>t. session_id t = sid) db)),
          total_skills = int (length (foldl (count_skill rnd) []
              (entries_of (filter (\<lambda>t. session_id t = sid) db)))),
          p_skills = sort_reverse (map (skill_count_of rnd \<circ> snd)
              (foldl (count_skill rnd) [] (entries_of (filter (\<lambda>t. session_id t = sid) db)))),
          suggested_roles = infer_roles_from_skill_names (map c_name
            (sort_reverse (map (skill_count_of rnd \<circ> snd)
              (foldl (count_skill rnd) [] (entries_of (filter (\<lambda>t. session_id t = sid) db))))))\<rparr>"
  using assms
  by (simp add: get_profile_def Let_def foldl_count_turn length_sort_reverse)

lemma get_profile_not_found:
  "filter (\<lambda>t. session_id t = sid) db = [] \<Longrightarrow> get_profile rnd sid db = Inl NotFound"
  by (simp add: get_profile_def)

lemma counted_stat_props:
  assumes "agg_inv rnd es stats" "c \<in> set (map (skill_count_of rnd \<circ> snd) stats)"
  shows "c_name c \<in> counted_keys es"
    "c_name c \<noteq> []"
    "occurrences (c_name c) es \<noteq> []"
    "c_count c = int (length (occurrences (c_name c) es))"
    "1 \<le> c_count c"
    "c_avg_confidence c = float_div rnd (float_sum rnd (map conf_of (occurrences (c_name c) es))) (of_int (c_count c))"
    "c_category c = category_of (hd (occurrences (c_name c) es))"
proof -
  from assms(2) obtain n i where ni: "(n, i) \<in> set stats" and c: "c = skill_count_of rnd i"
    by auto
  have ok: "stat_ok rnd es (n, i)" using assms(1) ni by (auto simp: agg_inv_def)
  have nm: "c_name c = n" using ok c by (simp add: stat_ok_def skill_count_of_def)
  have "n \<in> set (map fst stats)" using ni by force
  then show "c_name c \<in> counted_keys es" using assms(1) nm by (simp add: agg_inv_def)
  show "c_name c \<noteq> []" using ok nm by (simp add: stat_ok_def)
  show ne: "occurrences (c_name c) es \<noteq> []" using ok nm by (simp add: stat_ok_def)
  show cnt: "c_count c = int (length (occurrences (c_name c) es))"
    using ok nm c by (simp add: stat_ok_def skill_count_of_def)
  from ne have "0 < length (occurrences (c_name c) es)" by simp
  with cnt show one: "1 \<le> c_count c" by linarith
  have "max (i_count i) 1 = i_count i"
    using one c by (simp add: skill_count_of_def)
  then show "c_avg_confidence c
      = float_div rnd (float_sum rnd (map conf_of (occurrences (c_name c) es))) (of_int (c_count c))"
    using ok nm c by (simp add: stat_ok_def skill_count_of_def)
  show "c_category c = category_of (hd (occurrences (c_name c) es))"
    using ok nm c by (simp add: stat_ok_def skill_count_of_def)
qed

lemma counted_names:
  assumes "agg_inv rnd es stats"
  shows "map c_name (map (skill_count_of rnd \<circ> snd) stats) = map fst stats"
proof -
  have "c_name (skill_count_of rnd (snd p)) = fst p" if "p \<in> set stats" for p
    using assms that by (cases p) (auto simp: agg_inv_def stat_ok_def skill_count_of_def)
  then show ?thesis by simp
qed

lemma category_of_nonempty: "category_of s \<noteq> []"
  by (simp add: category_of_def Let_def)

lemma profile_skills_props:
  assumes ne: "filter (\<lambda>t. session_id t = sid) db \<noteq> []"
  defines "es \<equiv> entries_of (filter (\<lambda>t. session_id t = sid) db)"
  shows "\<exists>p. get_profile rnd sid db = Inr p
      \<and> distinct (map c_name (p_skills p))
      \<and> set (map c_name (p_skills p)) = counted_keys es
      \<and> (\<forall>c \<in> set (p_skills p).
            c_name c \<noteq> [] \<and> c_category c \<noteq> []
          \<and> c_count c = int (length (occurrences (c_name c) es))
          \<and> 1 \<le> c_count c
          \<and> c_avg_confidence c
              = float_div rnd (float_sum rnd (map conf_of (occurrences (c_name c) es)))
                  (of_int (c_count c))
          \<and> c_category c = category_of (hd (occurrences (c_name c) es)))
      \<and> sorted_wrt by_count_then_avg (p_skills p)
      \<and> total_turns p = int (length (filter (\<lambda>t. session_id t = sid) db))
      \<and> total_skills p = int (card (counted_keys es))
      \<and> suggested_roles p = infer_roles_from_skill_names (map c_name (p_skills p))"
proof -
  let ?stats = "foldl (count_skill rnd) [] es"
  let ?cs = "map (skill_count_of rnd \<circ> snd) ?stats"
  let ?p = "\<lparr>p_session_id = sid,
          total_turns = int (length (filter (\<lambda>t. session_id t = sid) db)),
          total_skills = int (length ?stats),
          p_skills = sort_reverse ?cs,
          suggested_roles = infer_roles_from_skill_names (map c_name (sort_reverse ?cs))\<rparr>"
  have inv: "agg_inv rnd es ?stats" by (rule agg_inv_foldl)
  have gp: "get_profile rnd sid db = Inr ?p"
    unfolding es_def by (rule get_profile_found[OF ne])
  have names: "map c_name ?cs = map fst ?stats" by (rule counted_names[OF inv])
  have d: "distinct (map c_name (sort_reverse ?cs))"
    using inv by (simp only: distinct_sort_reverse names agg_inv_def)
  have s: "set (map c_name (sort_reverse ?cs)) = counted_keys es"
  proof -
    have "set (map c_name (sort_reverse ?cs)) = set (map c_name ?cs)"
      by (simp only: set_map set_sort_reverse)
    also have "\<dots> = counted_keys es" using inv by (simp only: names agg_inv_def)
    finally show ?thesis .
  qed
  have each: "c_name c \<noteq> [] \<and> c_category c \<noteq> []
          \<and> c_count c = int (length (occurrences (c_name c) es))
          \<and> 1 \<le> c_count c
          \<and> c_avg_confidence c
              = float_div rnd (float_sum rnd (map conf_of (occurrences (c_name c) es)))
                  (of_int (c_count c))
          \<and> c_category c = category_of (hd (occurrences (c_name c) es))"
    if "c \<in> set (sort_reverse ?cs)" for c
  proof -
    have c: "c \<in> set ?cs" using that by (simp only: set_sort_reverse)
    note props = counted_stat_props[OF inv c]
    have "c_category c \<noteq> []" using props(7) category_of_nonempty by simp
    with props show ?thesis by blast
  qed
  have len: "length ?stats = card (counted_keys es)"
  proof -
    have "card (counted_keys es) = card (set (map fst ?stats))"
      using inv by (simp only: agg_inv_def)
    also have "\<dots> = length (map fst ?stats)"
      using inv by (intro distinct_card) (simp only: agg_inv_def)
    finally show ?thesis by simp
  qed
  have srt: "sorted_wrt by_count_then_avg (sort_reverse ?cs)" by (rule sort_reverse_sorted)
  have f1: "distinct (map c_name (p_skills ?p))" using d by simp
  have f2: "set (map c_name (p_skills ?p)) = counted_keys es" using s by simp
  have f3: "\<forall>c \<in> set (p_skills ?p).
            c_name c \<noteq> [] \<and> c_category c \<noteq> []
          \<and> c_count c = int (length (occurrences (c_name c) es))
          \<and> 1 \<le> c_count c
          \<and> c_avg_confidence c
              = float_div rnd (float_sum rnd (map conf_of (occurrences (c_name c) es)))
                  (of_int (c_count c))
          \<and> c_category c = category_of (hd (occurrences (c_name c) es))"
  proof
    fix c assume "c \<in> set (p_skills ?p)"
    then have "c \<in> set (sort_reverse ?cs)" by simp
    then show "c_name c \<noteq> [] \<and> c_category c \<noteq> []
          \<and> c_count c = int (length (occurrences (c_name c) es))
          \<and> 1 \<le> c_count c
          \<and> c_avg_confidence c
              = float_div rnd (float_sum rnd (map conf_of (occurrences (c_name c) es)))
                  (of_int (c_count c))
          \<and> c_category c = category_of (hd (occurrences (c_name c) es))"
      by (rule each)
  qed
  have f4: "sorted_wrt by_count_then_avg (p_skills ?p)" using srt by simp
  have f5: "total_turns ?p = int (length (filter (\<lambda>t. session_id t = sid) db))" by simp
  have f6: "total_skills ?p = int (card (counted_keys es))" using len by simp
  have f7: "suggested_roles ?p = infer_roles_from_skill_names (map c_name (p_skills ?p))"
    by simp
  from gp f1 f2 f3 f4 f5 f6 f7 show ?thesis by blast
qed

lemma strip_SQL: "strip ''SQL'' = ''SQL''" by code_simp
lemma strip_sql: "strip ''sql'' = ''sql''" by code_simp
lemma strip_db_query: "strip ''Database / Query'' = ''Database / Query''" by code_simp

lemma example_two_turns:
  assumes "rnd c = c" "rnd (c + c) = c + c"
  shows "get_profile rnd ''s1''
       [\<lparr>session_id = ''s1'', user_message = ''I know SQL'', bot_response = ''ok'',
          skills_json = Some [\<lparr>d_name = Some ''SQL'', d_category = Some ''Database / Query'',
                                d_confidence = Some c, d_evidence = Some ''sql''\<rparr>],
          created_at = 1\<rparr>,
        \<lparr>session_id = ''s1'', user_message = ''more SQL'', bot_response = ''ok'',
          skills_json = Some [\<lparr>d_name = Some ''SQL'', d_category = Some ''Database / Query'',
                                d_confidence = Some c, d_evidence = Some ''sql''\<rparr>],
          created_at = 2\<rparr>]
     = Inr \<lparr>p_session_id = ''s1'', total_turns = 2, total_skills = 1,
            p_skills = [\<lparr>c_name = ''SQL'', c_category = ''Database / Query'', c_count = 2,
                         c_avg_confidence = c\<rparr>],
            suggested_roles = [''Data Engineer / Data Analyst'']\<rparr>"
proof -
  have half: "(c + c) / 2 = c" by simp
  show ?thesis
    using assms
    by (simp add: get_profile_def count_turn_def skills_or_empty_def count_skill_def key_of_def
        category_of_def conf_of_def get_or_def strip_SQL strip_db_query update_entry_def
        skill_count_of_def sort_reverse_def float_add_def float_div_def half Let_def
        infer_roles_fired profile_rules_def fired_roles_five)
qed









lemma strip_Python: "strip ''Python'' = ''Python''" by code_simp
lemma strip_lang: "strip ''Programming Language'' = ''Programming Language''" by code_simp

lemma example_three_turns:
  "get_profile (\<lambda>x. x) ''s1''
       [\<lparr>session_id = ''s1'', user_message = ''Python and SQL'', bot_response = ''ok'',
          skills_json = Some [\<lparr>d_name = Some ''Python'', d_category = Some ''Programming Language'',
                                d_confidence = Some (7 / 10), d_evidence = Some ''python''\<rparr>,
                              \<lparr>d_name = Some ''SQL'', d_category = Some ''Database / Query'',
                                d_confidence = Some (7 / 10), d_evidence = Some ''sql''\<rparr>],
          created_at = 1\<rparr>,
        \<lparr>session_id = ''s2'', user_message = ''Go'', bot_response = ''ok'',
          skills_json = Some [\<lparr>d_name = Some ''Go'', d_category = Some ''Programming Language'',
                                d_confidence = Some (7 / 10), d_evidence = Some ''go''\<rparr>],
          created_at = 2\<rparr>,
        \<lparr>session_id = ''s1'', user_message = ''more SQL'', bot_response = ''ok'',
          skills_json = Some [\<lparr>d_name = Some ''SQL'', d_category = Some ''Database / Query'',
                                d_confidence = Some (7 / 10), d_evidence = Some ''sql''\<rparr>],
          created_at = 3\<rparr>]
     = Inr \<lparr>p_session_id = ''s1'', total_turns = 2, total_skills = 2,
            p_skills = [\<lparr>c_name = ''SQL'', c_category = ''Database / Query'', c_count = 2,
                         c_avg_confidence = 7 / 10\<rparr>,
                        \<lparr>c_name = ''Python'', c_category = ''Programming Language'', c_count = 1,
                         c_avg_confidence = 7 / 10\<rparr>],
            suggested_roles = [''Data Engineer / Data Analyst'']\<rparr>"
  by (simp add: get_profile_def count_turn_def skills_or_empty_def count_skill_def key_of_def
        category_of_def conf_of_def get_or_def strip_SQL strip_db_query strip_Python strip_lang
        update_entry_def skill_count_of_def sort_reverse_def float_add_def float_div_def Let_def
        infer_roles_fired profile_rules_def fired_roles_five)


text \<open>
  Claim C2. For a session with at least one turn the profile holds one statistic for each
  name counted (the trimmed name of a stored record, compared exactly), no name twice:
  its count is the number of the session's records with that name and is at least 1, its
  average is the float sum of their confidences divided by the count, its category is the
  one of the first such record, and the list is sorted by count, then average,
  descending. Two turns that each hold SQL with the same confidence give one statistic
  with count 2 and that confidence as average (for 0.7, its double is a float too).
\<close>

theorem aggregate_profile:
  "(filter (\<lambda>t. session_id t = sid) db \<noteq> []
      \<longrightarrow> (\<exists>p. get_profile rnd sid db = Inr p
            \<and> distinct (map c_name (p_skills p))
            \<and> set (map c_name (p_skills p))
                = counted_keys (entries_of (filter (\<lambda>t. session_id t = sid) db))
            \<and> (\<forall>c \<in> set (p_skills p).
                  c_count c = int (length (occurrences (c_name c)
                                 (entries_of (filter (\<lambda>t. session_id t = sid) db))))
                \<and> 1 \<le> c_count c
                \<and> c_avg_confidence c
                    = float_div rnd
                        (float_sum rnd (map conf_of (occurrences (c_name c)
                           (entries_of (filter (\<lambda>t. session_id t = sid) db)))))
                        (of_int (c_count c))
                \<and> c_category c = category_of (hd (occurrences (c_name c)
                                     (entries_of (filter (\<lambda>t. session_id t = sid) db)))))
            \<and> sorted_wrt by_count_then_avg (p_skills p)))
   \<and> (rnd c = c \<and> rnd (c + c) = c + c
      \<longrightarrow> get_profile rnd ''s1''
           [\<lparr>session_id = ''s1'', user_message = ''I know SQL'', bot_response = ''ok'',
              skills_json = Some [\<lparr>d_name = Some ''SQL'', d_category = Some ''Database / Query'',
                                    d_confidence = Some c, d_evidence = Some ''sql''\<rparr>],
              created_at = 1\<rparr>,
            \<lparr>session_id = ''s1'', user_message = ''more SQL'', bot_response = ''ok'',
              skills_json = Some [\<lparr>d_name = Some ''SQL'', d_category = Some ''Database / Query'',
                                    d_confidence = Some c, d_evidence = Some ''sql''\<rparr>],
              created_at = 2\<rparr>]
         = Inr \<lparr>p_session_id = ''s1'', total_turns = 2, total_skills = 1,
                p_skills = [\<lparr>c_name = ''SQL'', c_category = ''Database / Query'', c_count = 2,
                             c_avg_confidence = c\<rparr>],
                suggested_roles = [''Data Engineer / Data Analyst'']\<rparr>)"
proof (intro conjI impI)
  assume ne: "filter (\<lambda>t. session_id t = sid) db \<noteq> []"
  from profile_skills_props[OF ne, of rnd]
  show "\<exists>p. get_profile rnd sid db = Inr p
            \<and> distinct (map c_name (p_skills p))
            \<and> set (map c_name (p_skills p))
                = counted_keys (entries_of (filter (\<lambda>t. session_id t = sid) db))
            \<and> (\<forall>c \<in> set (p_skills p).
                  c_count c = int (length (occurrences (c_name c)
                                 (entries_of (filter (\<lambda>t. session_id t = sid) db))))
                \<and> 1 \<le> c_count c
                \<and> c_avg_confidence c
                    = float_div rnd
                        (float_sum rnd (map conf_of (occurrences (c_name c)
                           (entries_of (filter (\<lambda>t. session_id t = sid) db)))))
                        (of_int (c_count c))
                \<and> c_category c = category_of (hd (occurrences (c_name c)
                                     (entries_of (filter (\<lambda>t. session_id t = sid) db)))))
            \<and> sorted_wrt by_count_then_avg (p_skills p)"
    by blast
next
  assume "rnd c = c \<and> rnd (c + c) = c + c"
  then show "get_profile rnd ''s1''
           [\<lparr>session_id = ''s1'', user_message = ''I know SQL'', bot_response = ''ok'',
              skills_json = Some [\<lparr>d_name = Some ''SQL'', d_category = Some ''Database / Query'',
                                    d_confidence = Some c, d_evidence = Some ''sql''\<rparr>],
              created_at = 1\<rparr>,
            \<lparr>session_id = ''s1'', user_message = ''more SQL'', bot_response = ''ok'',
              skills_json = Some [\<lparr>d_name = Some ''SQL'', d_category = Some ''Database / Query'',
                                    d_confidence = Some c, d_evidence = Some ''sql''\<rparr>],
              created_at = 2\<rparr>]
         = Inr \<lparr>p_session_id = ''s1'', total_turns = 2, total_skills = 1,
                p_skills = [\<lparr>c_name = ''SQL'', c_category = ''Database / Query'', c_count = 2,
                             c_avg_confidence = c\<rparr>],
                suggested_roles = [''Data Engineer / Data Analyst'']\<rparr>"
    by (intro example_two_turns) simp_all
qed


theorem aggregate_profile_witness:
  "get_profile (\<lambda>x. x) ''s1''
       [\<lparr>session_id = ''s1'', user_message = ''I know SQL'', bot_response = ''ok'',
              skills_json = Some [\<lparr>d_name = Some ''SQL'', d_category = Some ''Database / Query'',
                                    d_confidence = Some (7 / 10), d_evidence = Some ''sql''\<rparr>],
              created_at = 1\<rparr>,
            \<lparr>session_id = ''s1'', user_message = ''more SQL'', bot_response = ''ok'',
              skills_json = Some [\<lparr>d_name = Some ''SQL'', d_category = Some ''Database / Query'',
                                    d_confidence = Some (7 / 10), d_evidence = Some ''sql''\<rparr>],
              created_at = 2\<rparr>]
     = Inr \<lparr>p_session_id = ''s1'', total_turns = 2, total_skills = 1,
                p_skills = [\<lparr>c_name = ''SQL'', c_category = ''Database / Query'', c_count = 2,
                             c_avg_confidence = 7 / 10\<rparr>],
                suggested_roles = [''Data Engineer / Data Analyst'']\<rparr>
   \<and> (\<exists>p. get_profile (\<lambda>x. x) ''s1''
       [\<lparr>session_id = ''s1'', user_message = ''Python and SQL'', bot_response = ''ok'',
          skills_json = Some [\<lparr>d_name = Some ''Python'', d_category = Some ''Programming Language'',
                                d_confidence = Some (7 / 10), d_evidence = Some ''python''\<rparr>,
                              \<lparr>d_name = Some ''SQL'', d_category = Some ''Database / Query'',
                                d_confidence = Some (7 / 10), d_evidence = Some ''sql''\<rparr>],
          created_at = 1\<rparr>,
        \<lparr>session_id = ''s2'', user_message = ''Go'', bot_response = ''ok'',
          skills_json = Some [\<lparr>d_name = Some ''Go'', d_category = Some ''Programming Language'',
                                d_confidence = Some (7 / 10), d_evidence = Some ''go''\<rparr>],
          created_at = 2\<rparr>,
        \<lparr>session_id = ''s1'', user_message = ''more SQL'', bot_response = ''ok'',
          skills_json = Some [\<lparr>d_name = Some ''SQL'', d_category = Some ''Database / Query'',
                                d_confidence = Some (7 / 10), d_evidence = Some ''sql''\<rparr>],
          created_at = 3\<rparr>]
         = Inr p
        \<and> p = \<lparr>p_session_id = ''s1'', total_turns = 2, total_skills = 2,
            p_skills = [\<lparr>c_name = ''SQL'', c_category = ''Database / Query'', c_count = 2,
                         c_avg_confidence = 7 / 10\<rparr>,
                        \<lparr>c_name = ''Python'', c_category = ''Programming Language'', c_count = 1,
                         c_avg_confidence = 7 / 10\<rparr>],
            suggested_roles = [''Data Engineer / Data Analyst'']\<rparr>
        \<and> distinct (map c_name (p_skills p))
        \<and> sorted_wrt by_count_then_avg (p_skills p))"
proof -
  let ?db = "[\<lparr>session_id = ''s1'', user_message = ''Python and SQL'', bot_response = ''ok'',
          skills_json = Some [\<lparr>d_name = Some ''Python'', d_category = Some ''Programming Language'',
                                d_confidence = Some (7 / 10), d_evidence = Some ''python''\<rparr>,
                              \<lparr>d_name = Some ''SQL'', d_category = Some ''Database / Query'',
                                d_confidence = Some (7 / 10), d_evidence = Some ''sql''\<rparr>],
          created_at = 1\<rparr>,
        \<lparr>session_id = ''s2'', user_message = ''Go'', bot_response = ''ok'',
          skills_json = Some [\<lparr>d_name = Some ''Go'', d_category = Some ''Programming Language'',
                                d_confidence = Some (7 / 10), d_evidence = Some ''go''\<rparr>],
          created_at = 2\<rparr>,
        \<lparr>session_id = ''s1'', user_message = ''more SQL'', bot_response = ''ok'',
          skills_json = Some [\<lparr>d_name = Some ''SQL'', d_category = Some ''Database / Query'',
                                d_confidence = Some (7 / 10), d_evidence = Some ''sql''\<rparr>],
          created_at = 3\<rparr>]"
  have w1: "get_profile (\<lambda>x. x) ''s1''
       [\<lparr>session_id = ''s1'', user_message = ''I know SQL'', bot_response = ''ok'',
              skills_json = Some [\<lparr>d_name = Some ''SQL'', d_category = Some ''Database / Query'',
                                    d_confidence = Some (7 / 10), d_evidence = Some ''sql''\<rparr>],
              created_at = 1\<rparr>,
            \<lparr>session_id = ''s1'', user_message = ''more SQL'', bot_response = ''ok'',
              skills_json = Some [\<lparr>d_name = Some ''SQL'', d_category = Some ''Database / Query'',
                                    d_confidence = Some (7 / 10), d_evidence = Some ''sql''\<rparr>],
              created_at = 2\<rparr>]
     = Inr \<lparr>p_session_id = ''s1'', total_turns = 2, total_skills = 1,
                p_skills = [\<lparr>c_name = ''SQL'', c_category = ''Database / Query'', c_count = 2,
                             c_avg_confidence = 7 / 10\<rparr>],
                suggested_roles = [''Data Engineer / Data Analyst'']\<rparr>"
    using aggregate_profile [where rnd = "\<lambda>x. x" and c = "7 / 10" and sid = "''s1''" and db = "[]"]
    by simp
  have ne: "filter (\<lambda>t. session_id t = ''s1'') ?db \<noteq> []" by simp
  from aggregate_profile [where rnd = "\<lambda>x. x" and c = 0 and sid = "''s1''" and db = ?db] ne
  obtain p where p: "get_profile (\<lambda>x. x) ''s1'' ?db = Inr p"
    "distinct (map c_name (p_skills p))" "sorted_wrt by_count_then_avg (p_skills p)"
    by blast
  from p(1) have "p = \<lparr>p_session_id = ''s1'', total_turns = 2, total_skills = 2,
            p_skills = [\<lparr>c_name = ''SQL'', c_category = ''Database / Query'', c_count = 2,
                         c_avg_confidence = 7 / 10\<rparr>,
                        \<lparr>c_name = ''Python'', c_category = ''Programming Language'', c_count = 1,
                         c_avg_confidence = 7 / 10\<rparr>],
            suggested_roles = [''Data Engineer / Data Analyst'']\<rparr>"
    by (simp only: example_three_turns sum.inject)
  with p w1 show ?thesis by blast
qed

text \<open>
  Claim C8. The profile fails with NotFound exactly when the session has no turn, it
  fails with nothing else, and it returns a profile for every session with a turn; a
  session without turns gives what a store without that session gives.
\<close>

theorem profile_not_found_iff_no_turns:
  "(get_profile rnd sid db = Inl NotFound \<longleftrightarrow> filter (\<lambda>t. session_id t = sid) db = [])
   \<and> (filter (\<lambda>t. session_id t = sid) db \<noteq> [] \<longrightarrow> (\<exists>p. get_profile rnd sid db = Inr p))
   \<and> (\<forall>e. get_profile rnd sid db = Inl e \<longrightarrow> e = NotFound)
   \<and> (filter (\<lambda>t. session_id t = sid) db = []
        \<longrightarrow> get_profile rnd sid db = get_profile rnd sid [])"
proof (cases "filter (\<lambda>t. session_id t = sid) db = []")
  case True
  then show ?thesis by (simp add: get_profile_not_found)
next
  case False
  from get_profile_found[OF False, of rnd] False show ?thesis by simp
qed

theorem profile_not_found_iff_no_turns_witness:
  "get_profile (\<lambda>x. x) ''s1'' [] = Inl NotFound
   \<and> get_profile (\<lambda>x. x) ''s9''
       [\<lparr>session_id = ''s1'', user_message = ''Python and SQL'', bot_response = ''ok'',
          skills_json = Some [\<lparr>d_name = Some ''Python'', d_category = Some ''Programming Language'',
                                d_confidence = Some (7 / 10), d_evidence = Some ''python''\<rparr>,
                              \<lparr>d_name = Some ''SQL'', d_category = Some ''Database / Query'',
                                d_confidence = Some (7 / 10), d_evidence = Some ''sql''\<rparr>],
          created_at = 1\<rparr>,
        \<lparr>session_id = ''s2'', user_message = ''Go'', bot_response = ''ok'',
          skills_json = Some [\<lparr>d_name = Some ''Go'', d_category = Some ''Programming Language'',
                                d_confidence = Some (7 / 10), d_evidence = Some ''go''\<rparr>],
          created_at = 2\<rparr>,
        \<lparr>session_id = ''s1'', user_message = ''more SQL'', bot_response = ''ok'',
          skills_json = Some [\<lparr>d_name = Some ''SQL'', d_category = Some ''Database / Query'',
                                d_confidence = Some (7 / 10), d_evidence = Some ''sql''\<rparr>],
          created_at = 3\<rparr>]
     = Inl NotFound
   \<and> (\<exists>p. get_profile (\<lambda>x. x) ''s1''
         [\<lparr>session_id = ''s1'', user_message = ''hello'', bot_response = ''hi'',
            skills_json = None, created_at = 1\<rparr>] = Inr p
        \<and> p = \<lparr>p_session_id = ''s1'', total_turns = 1, total_skills = 0, p_skills = [],
                 suggested_roles = []\<rparr>)"
proof -
  let ?db = "[\<lparr>session_id = ''s1'', user_message = ''Python and SQL'', bot_response = ''ok'',
          skills_json = Some [\<lparr>d_name = Some ''Python'', d_category = Some ''Programming Language'',
                                d_confidence = Some (7 / 10), d_evidence = Some ''python''\<rparr>,
                              \<lparr>d_name = Some ''SQL'', d_category = Some ''Database / Query'',
                                d_confidence = Some (7 / 10), d_evidence = Some ''sql''\<rparr>],
          created_at = 1\<rparr>,
        \<lparr>session_id = ''s2'', user_message = ''Go'', bot_response = ''ok'',
          skills_json = Some [\<lparr>d_name = Some ''Go'', d_category = Some ''Programming Language'',
                                d_confidence = Some (7 / 10), d_evidence = Some ''go''\<rparr>],
          created_at = 2\<rparr>,
        \<lparr>session_id = ''s1'', user_message = ''more SQL'', bot_response = ''ok'',
          skills_json = Some [\<lparr>d_name = Some ''SQL'', d_category = Some ''Database / Query'',
                                d_confidence = Some (7 / 10), d_evidence = Some ''sql''\<rparr>],
          created_at = 3\<rparr>]"
  let ?one = "[\<lparr>session_id = ''s1'', user_message = ''hello'', bot_response = ''hi'',
            skills_json = None, created_at = 1\<rparr>]"
  have w1: "get_profile (\<lambda>x. x) ''s1'' [] = Inl NotFound"
    using profile_not_found_iff_no_turns [where rnd = "\<lambda>x. x" and sid = "''s1''" and db = "[]"]
    by simp
  have w2: "get_profile (\<lambda>x. x) ''s9'' ?db = Inl NotFound"
    using profile_not_found_iff_no_turns [where rnd = "\<lambda>x. x" and sid = "''s9''" and db = ?db]
    by simp
  have ne: "filter (\<lambda>t. session_id t = ''s1'') ?one \<noteq> []" by simp
  from profile_not_found_iff_no_turns [where rnd = "\<lambda>x. x" and sid = "''s1''" and db = ?one] ne
  obtain p where p: "get_profile (\<lambda>x. x) ''s1'' ?one = Inr p" by blast
  have "get_profile (\<lambda>x. x) ''s1'' ?one
          = Inr \<lparr>p_session_id = ''s1'', total_turns = 1, total_skills = 0, p_skills = [],
                 suggested_roles = []\<rparr>"
    by (simp add: get_profile_def count_turn_def skills_or_empty_def sort_reverse_def
          infer_roles_fired profile_rules_def fired_roles_five)
  with p have "p = \<lparr>p_session_id = ''s1'', total_turns = 1, total_skills = 0, p_skills = [],
                 suggested_roles = []\<rparr>" by simp
  with p w1 w2 show ?thesis by blast
qed



section \<open>The matcher: properties\<close>

lemma dropWhile_keeps: "xs \<noteq> [] \<Longrightarrow> \<not> P (hd xs) \<Longrightarrow> dropWhile P xs = xs"
  by (cases xs) simp_all

lemma strip_empty_iff: "strip s = [] \<longleftrightarrow> (\<forall>c \<in> set s. is_space c)"
proof
  assume "strip s = []"
  then have "dropWhile is_space (rev (dropWhile is_space s)) = []"
    by (simp add: strip_def)
  then have "\<forall>x \<in> set (rev (dropWhile is_space s)). is_space x"
    by (simp only: dropWhile_eq_Nil_conv)
  then have a: "\<forall>x \<in> set (dropWhile is_space s). is_space x"
    by (simp only: set_rev)
  have "dropWhile is_space s = []"
  proof (rule ccontr)
    assume ne: "dropWhile is_space s \<noteq> []"
    then have "\<not> is_space (hd (dropWhile is_space s))" by (rule hd_dropWhile)
    moreover have "hd (dropWhile is_space s) \<in> set (dropWhile is_space s)"
      using ne by (rule hd_in_set)
    ultimately show False using a by blast
  qed
  then show "\<forall>c \<in> set s. is_space c" by (simp only: dropWhile_eq_Nil_conv)
next
  assume "\<forall>c \<in> set s. is_space c"
  then have "dropWhile is_space s = []" by (simp only: dropWhile_eq_Nil_conv)
  then show "strip s = []" by (simp only: strip_def dropWhile.simps rev.simps)
qed

lemma strip_id:
  assumes "s \<noteq> []" "\<not> is_space (hd s)" "\<not> is_space (last s)"
  shows "strip s = s"
proof -
  have 1: "dropWhile is_space s = s" using assms(1,2) by (rule dropWhile_keeps)
  have "rev s \<noteq> []" "\<not> is_space (hd (rev s))" using assms(1,3) by (simp_all add: hd_rev)
  then have 2: "dropWhile is_space (rev s) = rev s" by (rule dropWhile_keeps)
  show ?thesis by (simp only: strip_def 1 2 rev_rev_ident)
qed

lemma config_names_stripped:
  "\<forall>d \<in> set SKILL_CONFIG. sd_name d \<noteq> [] \<and> strip (sd_name d) = sd_name d"
proof -
  have "\<forall>d \<in> set SKILL_CONFIG.
          sd_name d \<noteq> [] \<and> \<not> is_space (hd (sd_name d)) \<and> \<not> is_space (last (sd_name d))"
    by (simp add: SKILL_CONFIG_def mk_def_def is_space_def)
  then show ?thesis using strip_id by blast
qed

lemma analyze_local:
  "\<exists>reply. analyze_message message False api_key llm
              = Inr (reply, fallback_extract_skills message)"
proof -
  have "\<forall>s \<in> set (fallback_extract_skills message). d_name s \<noteq> None"
    using extracted_fields_present by blast
  from fallback_response_total[OF this]
  obtain reply where "fallback_response message (fallback_extract_skills message) = Inr reply"
    by blast
  then have "analyze_message message False api_key llm
               = Inr (reply, fallback_extract_skills message)"
    by (simp add: analyze_message_def Let_def)
  then show ?thesis by blast
qed

lemma extracted_has_name:
  assumes "s \<in> set (fallback_extract_skills message)"
  shows "has_name s" "s_name (to_skill s) \<noteq> []"
    "\<exists>d \<in> set SKILL_CONFIG. d_name s = Some (sd_name d) \<and> s_name (to_skill s) = sd_name d"
proof -
  have "s \<in> set (concat (map (extracted_entry (lower message)) SKILL_CONFIG))"
    using assms by (simp add: extract_eq_spec extract_spec_def)
  from extracted_entry_props[OF this]
  obtain d where d: "d \<in> set SKILL_CONFIG" "d_name s = Some (sd_name d)" by blast
  from config_names_stripped d(1)
  have st: "sd_name d \<noteq> []" "strip (sd_name d) = sd_name d" by blast+
  show "has_name s" using d(2) st(1) by (simp add: has_name_def)
  show "s_name (to_skill s) \<noteq> []" using d(2) st by (simp add: to_skill_def get_or_def)
  show "\<exists>d \<in> set SKILL_CONFIG. d_name s = Some (sd_name d) \<and> s_name (to_skill s) = sd_name d"
    using d st by (intro bexI[of _ d]) (simp_all add: to_skill_def get_or_def)
qed

lemma filter_has_name_extracted:
  "filter has_name (fallback_extract_skills message) = fallback_extract_skills message"
  using extracted_has_name(1) by (simp add: filter_id_conv)

lemma name_set_extracted:
  "name_set (map to_skill (fallback_extract_skills message)) = matched_names message"
proof -
  let ?ds = "filter (\<lambda>d. \<exists>a \<in> set (sd_aliases d). whole_word_occurs a (lower message))
               SKILL_CONFIG"
  have names: "map d_name (fallback_extract_skills message) = map (\<lambda>d. Some (sd_name d)) ?ds"
    by (simp only: extract_eq_spec extract_spec_def names_extracted)
  have "map (\<lambda>s. lower (s_name (to_skill s))) (fallback_extract_skills message)
          = map (\<lambda>n. lower (strip (get_or n []))) (map d_name (fallback_extract_skills message))"
    by (simp add: to_skill_def comp_def)
  also have "\<dots> = map (\<lambda>d. lower (strip (sd_name d))) ?ds"
    by (simp only: names) (simp add: comp_def get_or_def)
  also have "\<dots> = map (\<lambda>d. lower (sd_name d)) ?ds"
    using config_names_stripped by (intro map_cong) auto
  finally have "map (\<lambda>s. lower (s_name (to_skill s))) (fallback_extract_skills message)
                  = map (\<lambda>d. lower (sd_name d)) ?ds" .
  then have "set (map (\<lambda>s. lower (s_name (to_skill s))) (fallback_extract_skills message))
                  = set (map (\<lambda>d. lower (sd_name d)) ?ds)" by (rule arg_cong)
  then show ?thesis by (simp add: name_set_def matched_names_def image_image)
qed

lemma finite_matched_names: "finite (matched_names text)"
  by (simp add: matched_names_def)

lemma match_skills_result:
  assumes "strip c \<noteq> []" "strip j \<noteq> []"
  shows "match_skills rnd c j api_key llm =
     Inr \<lparr>match_score =
            (if matched_names j \<noteq> {}
             then float_div rnd (of_nat (card (matched_names c \<inter> matched_names j)))
                    (of_nat (card (matched_names j)))
             else 0),
          candidate_skills = map to_skill (fallback_extract_skills c),
          jd_skills = map to_skill (fallback_extract_skills j),
          matched_skills = sorted_list_of_set (matched_names c \<inter> matched_names j),
          missing_skills = sorted_list_of_set (matched_names j - matched_names c),
          extra_skills = sorted_list_of_set (matched_names c - matched_names j)\<rparr>"
proof -
  obtain rc where rc: "analyze_message c False api_key llm = Inr (rc, fallback_extract_skills c)"
    using analyze_local by blast
  obtain rj where rj: "analyze_message j False api_key llm = Inr (rj, fallback_extract_skills j)"
    using analyze_local by blast
  have fin: "finite (matched_names c \<inter> matched_names j)"
    using finite_matched_names by blast
  show ?thesis
    using assms fin
    by (simp add: match_skills_def rc rj Let_def filter_has_name_extracted name_set_extracted)
qed

lemma match_skills_blank:
  "strip c = [] \<or> strip j = [] \<Longrightarrow> match_skills rnd c j api_key llm = Inl BadRequest"
  by (simp add: match_skills_def)

lemma matched_names_empty_iff:
  "matched_names text = {} \<longleftrightarrow> fallback_extract_skills text = []"
proof -
  have "matched_names text = {} \<longleftrightarrow> name_set (map to_skill (fallback_extract_skills text)) = {}"
    by (simp only: name_set_extracted)
  also have "\<dots> \<longleftrightarrow> fallback_extract_skills text = []"
    by (simp add: name_set_def)
  finally show ?thesis .
qed

lemma lower_Python_SQL: "lower ''Python SQL'' = ''python sql''" by code_simp
lemma lower_Python_Java_SQL: "lower ''Python Java SQL'' = ''python java sql''" by code_simp
lemma lower_hello_world: "lower ''hello world'' = ''hello world''" by code_simp
lemma lower_Python: "lower ''Python'' = ''python''" by code_simp
lemma lower_SQL: "lower ''SQL'' = ''sql''" by code_simp
lemma lower_Java: "lower ''Java'' = ''java''" by code_simp

lemma matched_names_Python_SQL: "matched_names ''Python SQL'' = {''python'', ''sql''}"
  unfolding matched_names_def lower_Python_SQL
  by (simp add: SKILL_CONFIG_def mk_def_def whole_word_occurs_occ is_word_char_def is_alnum_def
        lower_Python lower_SQL)

lemma matched_names_Python_Java_SQL:
  "matched_names ''Python Java SQL'' = {''python'', ''java'', ''sql''}"
  unfolding matched_names_def lower_Python_Java_SQL
  by (simp add: SKILL_CONFIG_def mk_def_def whole_word_occurs_occ is_word_char_def is_alnum_def
        lower_Python lower_SQL lower_Java)

lemma matched_names_hello_world: "matched_names ''hello world'' = {}"
  unfolding matched_names_def lower_hello_world
  by (simp add: SKILL_CONFIG_def mk_def_def whole_word_occurs_occ is_word_char_def is_alnum_def)

lemma not_blank_examples:
  "strip ''Python SQL'' \<noteq> []" "strip ''Python Java SQL'' \<noteq> []" "strip ''hello world'' \<noteq> []"
  by (simp_all add: strip_empty_iff is_space_def)

lemma blank_examples: "strip ''   '' = []" "strip [] = []"
  by (simp_all add: strip_empty_iff is_space_def)

lemma example_sets:
  "sorted_list_of_set ({''python'', ''sql''} \<inter> {''python'', ''java'', ''sql''}) = [''python'', ''sql'']"
  "sorted_list_of_set ({''python'', ''java'', ''sql''} - {''python'', ''sql''}) = [''java'']"
  "sorted_list_of_set ({''python'', ''sql''} - {''python'', ''java'', ''sql''}) = []"
  "card ({''python'', ''sql''} \<inter> {''python'', ''java'', ''sql''}) = 2"
  "card {''python'', ''java'', ''sql''} = 3"
  "sorted_list_of_set {''python'', ''sql''} = [''python'', ''sql'']"
  by code_simp+

lemma example_match:
  "match_skills rnd ''Python SQL'' ''Python Java SQL'' api_key llm =
     Inr \<lparr>match_score = float_div rnd 2 3,
          candidate_skills = map to_skill (fallback_extract_skills ''Python SQL''),
          jd_skills = map to_skill (fallback_extract_skills ''Python Java SQL''),
          matched_skills = [''python'', ''sql''],
          missing_skills = [''java''],
          extra_skills = []\<rparr>"
  unfolding match_skills_result[OF not_blank_examples(1) not_blank_examples(2)]
    matched_names_Python_SQL matched_names_Python_Java_SQL example_sets
  by simp

lemma strip_python: "strip ''python'' = ''python''" by code_simp

lemma extract_Python_SQL:
  "fallback_extract_skills ''Python SQL'' =
    [\<lparr>d_name = Some ''Python'', d_category = Some ''Programming Language'',
       d_confidence = Some (7 / 10), d_evidence = Some ''python''\<rparr>,
     \<lparr>d_name = Some ''SQL'', d_category = Some ''Database / Query'',
       d_confidence = Some (7 / 10), d_evidence = Some ''sql''\<rparr>]"
  unfolding extract_eq_spec extract_spec_def lower_Python_SQL
  by (simp add: SKILL_CONFIG_def mk_def_def extracted_entry_def whole_word_occurs_occ
        is_word_char_def is_alnum_def)

lemma extract_hello_world: "fallback_extract_skills ''hello world'' = []"
  using matched_names_hello_world by (simp only: matched_names_empty_iff)

text \<open>
  Claim C3. For candidate and job texts that are not blank, the matcher analyzes each
  text with the local engine, keeps the records with a name, and returns the
  intersection and the two differences of the lower-cased name sets as sorted lists
  without repetition, with the score the float quotient of the number matched by the
  number of job names, or 0.0 when the job has none. For "Python SQL" against
  "Python Java SQL": python and sql matched, java missing, nothing extra, score 2/3.
\<close>

theorem match_overlap:
  "(strip candidate_text \<noteq> [] \<and> strip job_description \<noteq> []
      \<longrightarrow> (\<exists>r. match_skills rnd candidate_text job_description api_key llm = Inr r
            \<and> candidate_skills r
                = map to_skill (filter has_name (fallback_extract_skills candidate_text))
            \<and> jd_skills r
                = map to_skill (filter has_name (fallback_extract_skills job_description))
            \<and> (\<forall>k \<in> set (candidate_skills r) \<union> set (jd_skills r). s_name k \<noteq> [])
            \<and> name_set (candidate_skills r) = matched_names candidate_text
            \<and> name_set (jd_skills r) = matched_names job_description
            \<and> set (matched_skills r) = name_set (candidate_skills r) \<inter> name_set (jd_skills r)
            \<and> set (missing_skills r) = name_set (jd_skills r) - name_set (candidate_skills r)
            \<and> set (extra_skills r) = name_set (candidate_skills r) - name_set (jd_skills r)
            \<and> sorted (matched_skills r) \<and> distinct (matched_skills r)
            \<and> sorted (missing_skills r) \<and> distinct (missing_skills r)
            \<and> sorted (extra_skills r) \<and> distinct (extra_skills r)
            \<and> match_score r
                = (if name_set (jd_skills r) \<noteq> {}
                   then float_div rnd (of_nat (length (matched_skills r)))
                          (of_nat (card (name_set (jd_skills r))))
                   else 0)))
   \<and> (\<exists>r. match_skills rnd ''Python SQL'' ''Python Java SQL'' api_key llm = Inr r
         \<and> matched_skills r = [''python'', ''sql'']
         \<and> missing_skills r = [''java'']
         \<and> extra_skills r = []
         \<and> match_score r = float_div rnd 2 3)"
proof (intro conjI impI)
  assume a: "strip candidate_text \<noteq> [] \<and> strip job_description \<noteq> []"
  let ?C = "matched_names candidate_text" and ?J = "matched_names job_description"
  let ?r = "\<lparr>match_score =
            (if ?J \<noteq> {} then float_div rnd (of_nat (card (?C \<inter> ?J))) (of_nat (card ?J))
             else 0),
          candidate_skills = map to_skill (fallback_extract_skills candidate_text),
          jd_skills = map to_skill (fallback_extract_skills job_description),
          matched_skills = sorted_list_of_set (?C \<inter> ?J),
          missing_skills = sorted_list_of_set (?J - ?C),
          extra_skills = sorted_list_of_set (?C - ?J)\<rparr>"
  have r: "match_skills rnd candidate_text job_description api_key llm = Inr ?r"
    using a by (intro match_skills_result) simp_all
  have fC: "finite ?C" and fJ: "finite ?J" by (rule finite_matched_names)+
  have f1: "finite (?C \<inter> ?J)" "finite (?J - ?C)" "finite (?C - ?J)" using fC fJ by simp_all
  have named: "\<forall>k \<in> set (candidate_skills ?r) \<union> set (jd_skills ?r). s_name k \<noteq> []"
    using extracted_has_name(2) by auto
  have p1: "candidate_skills ?r
              = map to_skill (filter has_name (fallback_extract_skills candidate_text))"
    and p2: "jd_skills ?r
              = map to_skill (filter has_name (fallback_extract_skills job_description))"
    by (simp_all add: filter_has_name_extracted)
  have n1: "name_set (candidate_skills ?r) = ?C" and n2: "name_set (jd_skills ?r) = ?J"
    by (simp_all add: name_set_extracted)
  have s1: "set (matched_skills ?r) = name_set (candidate_skills ?r) \<inter> name_set (jd_skills ?r)"
    and s2: "set (missing_skills ?r) = name_set (jd_skills ?r) - name_set (candidate_skills ?r)"
    and s3: "set (extra_skills ?r) = name_set (candidate_skills ?r) - name_set (jd_skills ?r)"
    using f1 by (simp_all add: name_set_extracted)
  have o: "sorted (matched_skills ?r) \<and> distinct (matched_skills ?r)
         \<and> sorted (missing_skills ?r) \<and> distinct (missing_skills ?r)
         \<and> sorted (extra_skills ?r) \<and> distinct (extra_skills ?r)"
    by simp
  have sc: "match_score ?r
                = (if name_set (jd_skills ?r) \<noteq> {}
                   then float_div rnd (of_nat (length (matched_skills ?r)))
                          (of_nat (card (name_set (jd_skills ?r))))
                   else 0)"
    using f1 by (simp add: name_set_extracted)
  from r p1 p2 named n1 n2 s1 s2 s3 o sc
  show "\<exists>r. match_skills rnd candidate_text job_description api_key llm = Inr r
            \<and> candidate_skills r
                = map to_skill (filter has_name (fallback_extract_skills candidate_text))
            \<and> jd_skills r
                = map to_skill (filter has_name (fallback_extract_skills job_description))
            \<and> (\<forall>k \<in> set (candidate_skills r) \<union> set (jd_skills r). s_name k \<noteq> [])
            \<and> name_set (candidate_skills r) = matched_names candidate_text
            \<and> name_set (jd_skills r) = matched_names job_description
            \<and> set (matched_skills r) = name_set (candidate_skills r) \<inter> name_set (jd_skills r)
            \<and> set (missing_skills r) = name_set (jd_skills r) - name_set (candidate_skills r)
            \<and> set (extra_skills r) = name_set (candidate_skills r) - name_set (jd_skills r)
            \<and> sorted (matched_skills r) \<and> distinct (matched_skills r)
            \<and> sorted (missing_skills r) \<and> distinct (missing_skills r)
            \<and> sorted (extra_skills r) \<and> distinct (extra_skills r)
            \<and> match_score r
                = (if name_set (jd_skills r) \<noteq> {}
                   then float_div rnd (of_nat (length (matched_skills r)))
                          (of_nat (card (name_set (jd_skills r))))
                   else 0)"
    by blast
next
  show "\<exists>r. match_skills rnd ''Python SQL'' ''Python Java SQL'' api_key llm = Inr r
         \<and> matched_skills r = [''python'', ''sql'']
         \<and> missing_skills r = [''java'']
         \<and> extra_skills r = []
         \<and> match_score r = float_div rnd 2 3"
    by (simp add: example_match)
qed

lemma to_skill_examples:
  "map to_skill
    [\<lparr>d_name = Some ''Python'', d_category = Some ''Programming Language'',
       d_confidence = Some (7 / 10), d_evidence = Some ''python''\<rparr>,
     \<lparr>d_name = Some ''SQL'', d_category = Some ''Database / Query'',
       d_confidence = Some (7 / 10), d_evidence = Some ''sql''\<rparr>]
   = [\<lparr>s_name = ''Python'', s_category = ''Programming Language'',
        s_confidence = 7 / 10, s_evidence = ''python''\<rparr>,
      \<lparr>s_name = ''SQL'', s_category = ''Database / Query'',
        s_confidence = 7 / 10, s_evidence = ''sql''\<rparr>]"
  by (simp add: to_skill_def get_or_def strip_Python strip_lang strip_python strip_SQL
        strip_db_query strip_sql)

theorem match_overlap_witness:
  "\<exists>r. match_skills (\<lambda>x. x) ''Python SQL'' ''Python Java SQL'' None (\<lambda>m. Inl UpstreamError)
          = Inr r
      \<and> candidate_skills r
          = [\<lparr>s_name = ''Python'', s_category = ''Programming Language'',
               s_confidence = 7 / 10, s_evidence = ''python''\<rparr>,
             \<lparr>s_name = ''SQL'', s_category = ''Database / Query'',
               s_confidence = 7 / 10, s_evidence = ''sql''\<rparr>]
      \<and> name_set (jd_skills r) = {''python'', ''java'', ''sql''}
      \<and> matched_skills r = [''python'', ''sql'']
      \<and> missing_skills r = [''java'']
      \<and> extra_skills r = []
      \<and> match_score r = 2 / 3"
proof -
  have nb: "strip ''Python SQL'' \<noteq> [] \<and> strip ''Python Java SQL'' \<noteq> []"
    using not_blank_examples by simp
  from match_overlap [where rnd = "\<lambda>x. x" and candidate_text = "''Python SQL''"
      and job_description = "''Python Java SQL''" and api_key = None
      and llm = "\<lambda>m. Inl UpstreamError"] nb
  obtain r where r: "match_skills (\<lambda>x. x) ''Python SQL'' ''Python Java SQL'' None
                       (\<lambda>m. Inl UpstreamError) = Inr r"
    and c: "candidate_skills r
              = map to_skill (filter has_name (fallback_extract_skills ''Python SQL''))"
    and j: "name_set (jd_skills r) = matched_names ''Python Java SQL''"
    by blast
  have e: "match_skills (\<lambda>x. x) ''Python SQL'' ''Python Java SQL'' None
             (\<lambda>m. Inl UpstreamError)
           = Inr \<lparr>match_score = float_div (\<lambda>x. x) 2 3,
               candidate_skills = map to_skill (fallback_extract_skills ''Python SQL''),
               jd_skills = map to_skill (fallback_extract_skills ''Python Java SQL''),
               matched_skills = [''python'', ''sql''],
               missing_skills = [''java''],
               extra_skills = []\<rparr>"
    by (rule example_match)
  from r e have req: "r = \<lparr>match_score = float_div (\<lambda>x. x) 2 3,
               candidate_skills = map to_skill (fallback_extract_skills ''Python SQL''),
               jd_skills = map to_skill (fallback_extract_skills ''Python Java SQL''),
               matched_skills = [''python'', ''sql''],
               missing_skills = [''java''],
               extra_skills = []\<rparr>"
    by simp
  have f: "matched_skills r = [''python'', ''sql'']" "missing_skills r = [''java'']"
    "extra_skills r = []" "match_score r = 2 / 3"
    unfolding req by (simp_all add: float_div_def)
  have c': "candidate_skills r
          = [\<lparr>s_name = ''Python'', s_category = ''Programming Language'',
               s_confidence = 7 / 10, s_evidence = ''python''\<rparr>,
             \<lparr>s_name = ''SQL'', s_category = ''Database / Query'',
               s_confidence = 7 / 10, s_evidence = ''sql''\<rparr>]"
  proof -
    have "candidate_skills r = map to_skill (fallback_extract_skills ''Python SQL'')"
      by (simp only: c filter_has_name_extracted)
    then show ?thesis by (simp only: extract_Python_SQL to_skill_examples)
  qed
  have j': "name_set (jd_skills r) = {''python'', ''java'', ''sql''}"
    unfolding j by (rule matched_names_Python_Java_SQL)
  from r c' j' f show ?thesis by blast
qed

text \<open>
  Claim C9. The matcher fails with a bad request exactly when one of the two texts is
  blank, that is empty or made of white space only; it fails with nothing else; for two
  texts that are not blank it returns a result; and when the job text yields no skill
  the score is 0.
\<close>

theorem match_bad_request_iff_blank:
  "(match_skills rnd candidate_text job_description api_key llm = Inl BadRequest
      \<longleftrightarrow> strip candidate_text = [] \<or> strip job_description = [])
   \<and> (strip candidate_text = [] \<longleftrightarrow> (\<forall>ch \<in> set candidate_text. is_space ch))
   \<and> (strip job_description = [] \<longleftrightarrow> (\<forall>ch \<in> set job_description. is_space ch))
   \<and> (\<forall>e. match_skills rnd candidate_text job_description api_key llm = Inl e
          \<longrightarrow> e = BadRequest)
   \<and> (strip candidate_text \<noteq> [] \<and> strip job_description \<noteq> []
        \<longrightarrow> (\<exists>r. match_skills rnd candidate_text job_description api_key llm = Inr r))
   \<and> (\<forall>r. match_skills rnd candidate_text job_description api_key llm = Inr r
            \<and> (jd_skills r = [] \<or> fallback_extract_skills job_description = [])
          \<longrightarrow> match_score r = 0 \<and> jd_skills r = [] \<and> matched_skills r = []
              \<and> missing_skills r = [])"
proof (cases "strip candidate_text = [] \<or> strip job_description = []")
  case True
  from match_skills_blank[OF True, of rnd api_key llm] True show ?thesis
    by (simp add: strip_empty_iff)
next
  case False
  then have nb: "strip candidate_text \<noteq> []" "strip job_description \<noteq> []" by simp_all
  note res = match_skills_result[OF nb, of rnd api_key llm]
  have z: "match_score r = 0 \<and> jd_skills r = [] \<and> matched_skills r = [] \<and> missing_skills r = []"
    if r: "match_skills rnd candidate_text job_description api_key llm = Inr r"
      and e: "jd_skills r = [] \<or> fallback_extract_skills job_description = []" for r
  proof -
    let ?R = "\<lparr>match_score =
            (if matched_names job_description \<noteq> {}
             then float_div rnd
                    (of_nat (card (matched_names candidate_text \<inter> matched_names job_description)))
                    (of_nat (card (matched_names job_description)))
             else 0),
          candidate_skills = map to_skill (fallback_extract_skills candidate_text),
          jd_skills = map to_skill (fallback_extract_skills job_description),
          matched_skills
            = sorted_list_of_set (matched_names candidate_text \<inter> matched_names job_description),
          missing_skills
            = sorted_list_of_set (matched_names job_description - matched_names candidate_text),
          extra_skills
            = sorted_list_of_set (matched_names candidate_text - matched_names job_description)\<rparr>"
    have req: "r = ?R" using r res by simp
    have jd: "jd_skills r = map to_skill (fallback_extract_skills job_description)"
      unfolding req by simp
    with e have ex: "fallback_extract_skills job_description = []" by auto
    then have "matched_names job_description = {}" by (simp only: matched_names_empty_iff)
    with ex show ?thesis unfolding req by simp
  qed
  from res z False show ?thesis by (simp add: strip_empty_iff)
qed

theorem match_bad_request_iff_blank_witness:
  "match_skills (\<lambda>x. x) ''   '' ''Python SQL'' None (\<lambda>m. Inl UpstreamError) = Inl BadRequest
   \<and> match_skills (\<lambda>x. x) ''Python SQL'' [] None (\<lambda>m. Inl UpstreamError) = Inl BadRequest
   \<and> (\<exists>r. match_skills (\<lambda>x. x) ''Python SQL'' ''hello world'' None (\<lambda>m. Inl UpstreamError)
            = Inr r
        \<and> match_score r = 0 \<and> jd_skills r = [] \<and> matched_skills r = []
        \<and> missing_skills r = [])"
proof -
  let ?llm = "\<lambda>m :: string. (Inl UpstreamError :: error + analysis)"
  have w1: "match_skills (\<lambda>x. x) ''   '' ''Python SQL'' None ?llm = Inl BadRequest"
    using match_bad_request_iff_blank [where rnd = "\<lambda>x. x" and candidate_text = "''   ''"
        and job_description = "''Python SQL''" and api_key = None and llm = ?llm]
      blank_examples
    by blast
  have w2: "match_skills (\<lambda>x. x) ''Python SQL'' [] None ?llm = Inl BadRequest"
    using match_bad_request_iff_blank [where rnd = "\<lambda>x. x" and candidate_text = "''Python SQL''"
        and job_description = "[]" and api_key = None and llm = ?llm]
      blank_examples
    by blast
  note t = match_bad_request_iff_blank [where rnd = "\<lambda>x. x" and candidate_text = "''Python SQL''"
        and job_description = "''hello world''" and api_key = None and llm = ?llm]
  from t not_blank_examples
  obtain r where r: "match_skills (\<lambda>x. x) ''Python SQL'' ''hello world'' None ?llm = Inr r"
    by blast
  from t r extract_hello_world
  have "match_score r = 0 \<and> jd_skills r = [] \<and> matched_skills r = [] \<and> missing_skills r = []"
    by blast
  with r w1 w2 show ?thesis by blast
qed


section \<open>Conversation history: properties\<close>

text \<open>
  Claim C4, evaluated on the code: a stored turn whose first skill record has no name and
  whose second is well formed. The listing of the session is not the turn with the one
  well-formed record; it ends with the validation error of the first record.
\<close>

theorem conversation_aborts_on_malformed_record:
  "get_conversation ''s1''
     [\<lparr>session_id = ''s1'', user_message = ''I know SQL'', bot_response = ''ok'',
        skills_json = Some [\<lparr>d_name = None, d_category = Some ''Database'',
                              d_confidence = Some (7 / 10), d_evidence = Some ''mongo''\<rparr>,
                            \<lparr>d_name = Some ''SQL'', d_category = Some ''Database / Query'',
                              d_confidence = Some (7 / 10), d_evidence = Some ''sql''\<rparr>],
        created_at = 1\<rparr>]
   = Inl ValidationError"
  by (simp add: get_conversation_def skills_or_empty_def parse_skill_def)

end
